theory Spec2Isabelle
  imports Main
begin

section \<open>Data model (src/bot/schema.ts)\<close>

text \<open>
  Instants are the millisecond counts that \<^verbatim>\<open>Date.getTime()\<close> returns. The source
  divides a difference of instants by \<^verbatim>\<open>1000 * 60 * 60\<close> in double precision and
  compares the quotient with 1 or 12; for integer millisecond counts that comparison
  holds exactly when the difference compares the same way with 3600000 or 43200000, and
  that is how the comparisons are written here. The clock readings of one handler
  invocation are taken as one instant \<open>now\<close>.

  A table is the list of its rows in insertion order; an insert appends, an update maps
  over the rows that match its \<^verbatim>\<open>where\<close>, a select filters. Row identities
  generated by the store (\<^verbatim>\<open>gen_random_uuid()\<close>) and random tokens are parameters
  of the operation that needs one, and are taken to be new to their table. The
  \<^verbatim>\<open>integer\<close> columns are modelled as unbounded \<open>int\<close>.

  Handlers run one after the other: the source starts the bot with \<^verbatim>\<open>bot.start\<close>,
  whose polling loop handles one update at a time. A handler is modelled from the
  point where the ban and force-subscribe middleware has let the update through.
\<close>

type_synonym instant = int

record user =
  u_id :: string
  username :: string
  displayName :: string
  role :: string
  u_status :: string
  credits :: int
  lastCreditReset :: "instant option"
  isPremium :: bool
  premiumExpiresAt :: "instant option"

record movie =
  m_id :: string
  displayTitle :: string
  links :: "string list"
  m_status :: string

record movieAsset =
  a_movieId :: string
  assetType :: string

record creditTransaction =
  ct_userId :: string
  amount :: int
  reason :: string

record movieAccessRow =
  ma_userId :: string
  ma_movieId :: string
  unlockedAt :: instant

record movieVerification =
  mv_userId :: string
  mv_movieId :: string
  mv_token :: string
  mv_status :: string
  mv_createdAt :: instant

record creditVerification =
  cv_userId :: string
  cv_token :: string
  cv_status :: string
  creditsAmount :: int
  cv_createdAt :: instant

record referral =
  referrerId :: string
  referredId :: string
  creditsAwarded :: int

record db =
  users :: "user list"
  movies :: "movie list"
  movieAssets :: "movieAsset list"
  creditTransactions :: "creditTransaction list"
  movieAccess :: "movieAccessRow list"
  movieVerifications :: "movieVerification list"
  creditVerifications :: "creditVerification list"
  referrals :: "referral list"

text \<open>A failed store statement (a violated constraint) is an exception of the source.\<close>

datatype error = StorageError

text \<open>\<^verbatim>\<open>s.startsWith(p)\<close>\<close>

definition startsWith :: "string \<Rightarrow> string \<Rightarrow> bool" where
  "startsWith s p = (take (length p) s = p)"

section \<open>Accounts\<close>

text \<open>
  \<^verbatim>\<open>getOrCreateUser(telegramId, displayName)\<close>. A Telegram id is represented by
  its decimal string \<open>tg\<close>, which is what the store keys accounts by
  (\<^verbatim>\<open>users.username\<close>); \<open>admins\<close> is \<^verbatim>\<open>ADMIN_IDS\<close> in the same
  representation and \<open>newId\<close> the identity the store gives a new row.
\<close>

definition getOrCreateUser ::
  "string list \<Rightarrow> db \<Rightarrow> string \<Rightarrow> string \<Rightarrow> string \<Rightarrow> db \<times> user \<times> bool" where
  "getOrCreateUser admins d tg name newId =
     (case filter (\<lambda>u. username u = tg) (users d) of
        e # _ \<Rightarrow>
          if startsWith (displayName e) ''Admin_''
          then (d\<lparr>users := map (\<lambda>u. if u_id u = u_id e then u\<lparr>displayName := name\<rparr> else u)
                               (users d)\<rparr>,
                e\<lparr>displayName := name\<rparr>, False)
          else (d, e, False)
      | [] \<Rightarrow>
          (let n = \<lparr>u_id = newId, username = tg, displayName = name,
                    role = (if tg \<in> set admins then ''admin'' else ''user''),
                    u_status = ''active'', credits = 0, lastCreditReset = None,
                    isPremium = False, premiumExpiresAt = None\<rparr>
           in (d\<lparr>users := users d @ [n]\<rparr>, n, True)))"

definition isAdmin :: "string list \<Rightarrow> db \<Rightarrow> string \<Rightarrow> bool" where
  "isAdmin admins d tg =
     (if tg \<in> set admins then True
      else (case filter (\<lambda>u. username u = tg) (users d) of
              [] \<Rightarrow> False
            | u # _ \<Rightarrow> role u = ''admin''))"

text \<open>\<^verbatim>\<open>isPremiumUser(userId)\<close>\<close>

definition isPremiumUser :: "db \<Rightarrow> string \<Rightarrow> instant \<Rightarrow> bool" where
  "isPremiumUser d userId now =
     (case filter (\<lambda>u. u_id u = userId) (users d) of
        [] \<Rightarrow> False
      | u # _ \<Rightarrow>
          if \<not> isPremium u then False
          else if (case premiumExpiresAt u of None \<Rightarrow> False | Some e \<Rightarrow> e < now) then False
          else True)"

text \<open>The update of \<^verbatim>\<open>bot.command("rmpremium")\<close> on the row with the given id:
  \<^verbatim>\<open>isPremium: false, premiumExpiresAt: null\<close>.\<close>

definition removePremium :: "db \<Rightarrow> string \<Rightarrow> db" where
  "removePremium d userId =
     d\<lparr>users := map (\<lambda>x. if u_id x = userId
                           then x\<lparr>isPremium := False, premiumExpiresAt := None\<rparr> else x)
                  (users d)\<rparr>"

section \<open>Credits\<close>

record earnCheck =
  canEarn :: bool
  hoursRemaining :: "int option"
  minutesRemaining :: "int option"

text \<open>\<^verbatim>\<open>canEarnCredits(userId)\<close>\<close>

definition canEarnCredits :: "db \<Rightarrow> string \<Rightarrow> instant \<Rightarrow> db \<times> earnCheck" where
  "canEarnCredits d userId now =
     (case filter (\<lambda>u. u_id u = userId) (users d) of
        [] \<Rightarrow> (d, \<lparr>canEarn = False, hoursRemaining = None, minutesRemaining = None\<rparr>)
      | u # _ \<Rightarrow>
          (let msSinceReset = (case lastCreditReset u of
                                 Some l \<Rightarrow> now - l
                               | None \<Rightarrow> 13 * 60 * 60 * 1000)
           in if msSinceReset \<ge> 12 * (1000 * 60 * 60)
              then (d\<lparr>users := map (\<lambda>x. if u_id x = userId
                                           then x\<lparr>credits := 0, lastCreditReset := Some now\<rparr>
                                           else x) (users d)\<rparr>,
                    \<lparr>canEarn = True, hoursRemaining = None, minutesRemaining = None\<rparr>)
              else if credits u \<ge> 2
              then (let remainingMs = (12 * 60 * 60 * 1000) - msSinceReset
                    in (d, \<lparr>canEarn = False,
                            hoursRemaining = Some (remainingMs div (1000 * 60 * 60)),
                            minutesRemaining =
                              Some ((remainingMs mod (1000 * 60 * 60)) div (1000 * 60))\<rparr>))
              else (d, \<lparr>canEarn = True, hoursRemaining = None, minutesRemaining = None\<rparr>)))"

text \<open>
  \<^verbatim>\<open>earnCredits(userId)\<close>. The insert into \<^verbatim>\<open>credit_transactions\<close> comes first
  and its \<^verbatim>\<open>user_id\<close> references \<^verbatim>\<open>users.id\<close>: without such a row the statement
  fails and nothing is written.
\<close>

definition earnCredits :: "db \<Rightarrow> string \<Rightarrow> instant \<Rightarrow> error + (db \<times> int)" where
  "earnCredits d userId now =
     (case filter (\<lambda>u. u_id u = userId) (users d) of
        [] \<Rightarrow> Inl StorageError
      | u # _ \<Rightarrow>
          (let newCredits = (if credits u = 0 then 0 else credits u) + 2;
               d1 = d\<lparr>creditTransactions := creditTransactions d @
                        [\<lparr>ct_userId = userId, amount = 2, reason = ''shortener_visit''\<rparr>]\<rparr>
           in Inr (d1\<lparr>users := map (\<lambda>x. if u_id x = userId
                                          then x\<lparr>credits := newCredits,
                                                 lastCreditReset :=
                                                   (case lastCreditReset u of
                                                      Some l \<Rightarrow> Some l
                                                    | None \<Rightarrow> Some now)\<rparr>
                                          else x) (users d1)\<rparr>,
                   newCredits)))"

text \<open>
  \<^verbatim>\<open>spendCredit(userId)\<close>; the result is the pair \<^verbatim>\<open>(success, credits)\<close>, and
  \<^verbatim>\<open>user[0]?.credits || 0\<close> is 0 for a missing row or a zero balance.
\<close>

definition spendCredit :: "db \<Rightarrow> string \<Rightarrow> db \<times> bool \<times> int" where
  "spendCredit d userId =
     (case filter (\<lambda>u. u_id u = userId) (users d) of
        [] \<Rightarrow> (d, False, 0)
      | u # _ \<Rightarrow>
          if credits u < 1 then (d, False, (if credits u = 0 then 0 else credits u))
          else
            (let d1 = d\<lparr>creditTransactions := creditTransactions d @
                          [\<lparr>ct_userId = userId, amount = - 1, reason = ''link_access''\<rparr>]\<rparr>;
                 newCredits = credits u - 1
             in (d1\<lparr>users := map (\<lambda>x. if u_id x = userId then x\<lparr>credits := newCredits\<rparr>
                                        else x) (users d1)\<rparr>,
                 True, newCredits)))"

text \<open>The row of an account and its cached balance, as every read of the source takes
  them: the first row the select by id returns.\<close>

definition account :: "db \<Rightarrow> string \<Rightarrow> user option" where
  "account d userId =
     (case filter (\<lambda>u. u_id u = userId) (users d) of [] \<Rightarrow> None | u # _ \<Rightarrow> Some u)"

definition balance :: "db \<Rightarrow> string \<Rightarrow> int option" where
  "balance d userId =
     (case filter (\<lambda>u. u_id u = userId) (users d) of [] \<Rightarrow> None | u # _ \<Rightarrow> Some (credits u))"

section \<open>Access grants\<close>

record accessValidity =
  valid :: bool
  av_hoursRemaining :: int
  av_minutesRemaining :: int

text \<open>
  \<^verbatim>\<open>isAccessValid(unlockedAt)\<close>, with \<^verbatim>\<open>ACCESS_VALIDITY_HOURS = 12\<close>. The two
  remaining-time fields are the exact-arithmetic reading of what the source computes
  in double precision; only \<open>valid\<close> is used in the statements below.
\<close>

definition isAccessValid :: "instant \<Rightarrow> instant \<Rightarrow> accessValidity" where
  "isAccessValid unlocked now =
     (let ms = now - unlocked;
          remMs = max 0 (12 * (1000 * 60 * 60) - ms)
      in \<lparr>valid = (ms < 12 * (1000 * 60 * 60)),
          av_hoursRemaining = remMs div (1000 * 60 * 60),
          av_minutesRemaining = (remMs div (1000 * 60)) mod 60\<rparr>)"

text \<open>The grant-or-renew step that the premium branch of \<^verbatim>\<open>/getlink_\<close> and the
  claim of a content token both perform: overwrite \<^verbatim>\<open>unlockedAt\<close> when a row for
  the pair exists, insert a row otherwise.\<close>

definition grantOrRenew :: "db \<Rightarrow> string \<Rightarrow> string \<Rightarrow> instant \<Rightarrow> db" where
  "grantOrRenew d userId movieId now =
     (if filter (\<lambda>a. ma_userId a = userId \<and> ma_movieId a = movieId) (movieAccess d) \<noteq> []
      then d\<lparr>movieAccess := map (\<lambda>a. if ma_userId a = userId \<and> ma_movieId a = movieId
                                        then a\<lparr>unlockedAt := now\<rparr> else a) (movieAccess d)\<rparr>
      else d\<lparr>movieAccess := movieAccess d @
                [\<lparr>ma_userId = userId, ma_movieId = movieId, unlockedAt = now\<rparr>]\<rparr>)"

section \<open>Handlers\<close>

text \<open>
  What a handler answers. The messaging layer is not modelled: a reply is the branch of
  the handler that produced it, with the data it carries. \<open>Content m adminPreview v\<close> is
  \<^verbatim>\<open>sendMovieContent(ctx, m, adminPreview, v)\<close>; \<open>PremiumContent\<close> is the same call
  after the premium notice. \<open>Threw e\<close> is an exception leaving the handler.
\<close>

datatype reply =
    LinkUnknown
  | NotYours
  | LinkExpired
  | CompleteFirst
  | ExpiredEarlier
  | AlreadyUsed
  | MovieMissing
  | Content movie bool accessValidity
  | PremiumContent movie accessValidity
  | CreditsAdded int
  | NoReply
  | NotFound
  | NotAvailable
  | NoContent
  | LinkError
  | VerifyPrompt string string bool
  | EarnBlocked int int
  | EarnPrompt string string
  | PremiumNoCredits
  | Offline
  | MovieDetails
  | DirectClaimDisabled
  | Menu
  | AdminOnly
  | Usage
  | UserNotFound
  | CreditsReset
  | Threw error

definition fileTypes :: "string list" where
  "fileTypes = [''document'', ''video'', ''photo'', ''audio'', ''animation'', ''voice'',
                ''sticker'']"

text \<open>
  \<^verbatim>\<open>bot.hears(/^\/getlink_(.+)$/)\<close>. \<open>verificationToken\<close> is the value of
  \<^verbatim>\<open>crypto.randomBytes(16).toString('hex')\<close> and \<open>shortUrl\<close> the result of
  \<^verbatim>\<open>generateShortLink\<close> (\<open>None\<close> for \<^verbatim>\<open>null\<close>).
\<close>

definition getlink ::
  "string list \<Rightarrow> db \<Rightarrow> string \<Rightarrow> string \<Rightarrow> string \<Rightarrow> string \<Rightarrow> string \<Rightarrow> string option
     \<Rightarrow> instant \<Rightarrow> db \<times> reply" where
  "getlink admins d tg name newId movieIdPrefix verificationToken shortUrl now =
     (case getOrCreateUser admins d tg name newId of (d1, usr, isNew) \<Rightarrow>
      (let userIsAdmin = isAdmin admins d1 tg
       in case filter (\<lambda>m. startsWith (m_id m) movieIdPrefix) (movies d1) of
            [] \<Rightarrow> (d1, NotFound)
          | mv # _ \<Rightarrow>
             (let existingAccess =
                    filter (\<lambda>a. ma_userId a = u_id usr \<and> ma_movieId a = m_id mv)
                      (movieAccess d1);
                  hasAccess = (existingAccess \<noteq> []);
                  accessV = (case existingAccess of
                               a # _ \<Rightarrow> isAccessValid (unlockedAt a) now
                             | [] \<Rightarrow> \<lparr>valid = False, av_hoursRemaining = 0,
                                      av_minutesRemaining = 0\<rparr>)
              in if \<not> userIsAdmin \<and> \<not> valid accessV \<and> m_status mv \<noteq> ''published''
                 then (d1, NotAvailable)
                 else
                  (let assets = filter (\<lambda>a. a_movieId a = m_id mv) (movieAssets d1);
                       hasFiles = list_ex (\<lambda>a. assetType a \<in> set fileTypes) assets;
                       hasLinks = (list_ex (\<lambda>a. assetType a = ''link'') assets
                                   \<or> links mv \<noteq> [])
                   in if \<not> hasFiles \<and> \<not> hasLinks then (d1, NoContent)
                      else if userIsAdmin
                      then (d1, Content mv True
                                  \<lparr>valid = True, av_hoursRemaining = 12,
                                   av_minutesRemaining = 0\<rparr>)
                      else if isPremiumUser d1 (u_id usr) now
                      then ((if \<not> valid accessV
                             then grantOrRenew d1 (u_id usr) (m_id mv) now else d1),
                            PremiumContent mv
                              \<lparr>valid = True, av_hoursRemaining = 12,
                               av_minutesRemaining = 0\<rparr>)
                      else if valid accessV then (d1, Content mv False accessV)
                      else
                       (let d2 = d1\<lparr>movieVerifications := movieVerifications d1 @
                                     [\<lparr>mv_userId = u_id usr, mv_movieId = m_id mv,
                                       mv_token = verificationToken,
                                       mv_status = ''pending'', mv_createdAt = now\<rparr>]\<rparr>
                        in case shortUrl of
                             None \<Rightarrow> (d2, LinkError)
                           | Some url \<Rightarrow> (d2, VerifyPrompt verificationToken url
                                                hasAccess))))))"

text \<open>\<^verbatim>\<open>bot.callbackQuery(/^checkverify_(.+)$/)\<close>\<close>

definition checkverify ::
  "string list \<Rightarrow> db \<Rightarrow> string \<Rightarrow> string \<Rightarrow> string \<Rightarrow> string \<Rightarrow> instant \<Rightarrow> db \<times> reply" where
  "checkverify admins d tg name newId token now =
     (case getOrCreateUser admins d tg name newId of (d1, usr, isNew) \<Rightarrow>
      (case filter (\<lambda>v. mv_token v = token) (movieVerifications d1) of
         [] \<Rightarrow> (d1, LinkUnknown)
       | verification # _ \<Rightarrow>
          if mv_userId verification \<noteq> u_id usr then (d1, NotYours)
          else if now - mv_createdAt verification > 1 * (1000 * 60 * 60)
          then (d1\<lparr>movieVerifications :=
                     map (\<lambda>v. if mv_token v = token then v\<lparr>mv_status := ''expired''\<rparr> else v)
                       (movieVerifications d1)\<rparr>,
                LinkExpired)
          else if mv_status verification = ''pending'' then (d1, CompleteFirst)
          else if mv_status verification = ''expired'' then (d1, ExpiredEarlier)
          else if mv_status verification = ''used'' then (d1, AlreadyUsed)
          else if mv_status verification = ''verified''
          then (case filter (\<lambda>m. m_id m = mv_movieId verification) (movies d1) of
                  [] \<Rightarrow> (d1, MovieMissing)
                | mv # _ \<Rightarrow>
                   (let d2 = grantOrRenew d1 (u_id usr) (m_id mv) now
                    in (d2\<lparr>movieVerifications :=
                             map (\<lambda>v. if mv_token v = token then v\<lparr>mv_status := ''used''\<rparr>
                                       else v) (movieVerifications d2)\<rparr>,
                        Content mv False
                          \<lparr>valid = True, av_hoursRemaining = 12,
                           av_minutesRemaining = 0\<rparr>)))
          else (d1, NoReply)))"

text \<open>\<^verbatim>\<open>bot.callbackQuery(/^checkcredit_(.+)$/)\<close>\<close>

definition checkcredit ::
  "string list \<Rightarrow> db \<Rightarrow> string \<Rightarrow> string \<Rightarrow> string \<Rightarrow> string \<Rightarrow> instant \<Rightarrow> db \<times> reply" where
  "checkcredit admins d tg name newId token now =
     (case getOrCreateUser admins d tg name newId of (d1, usr, isNew) \<Rightarrow>
      (case filter (\<lambda>v. cv_token v = token) (creditVerifications d1) of
         [] \<Rightarrow> (d1, LinkUnknown)
       | verification # _ \<Rightarrow>
          if cv_userId verification \<noteq> u_id usr then (d1, NotYours)
          else if now - cv_createdAt verification > 1 * (1000 * 60 * 60)
          then (d1\<lparr>creditVerifications :=
                     map (\<lambda>v. if cv_token v = token then v\<lparr>cv_status := ''expired''\<rparr> else v)
                       (creditVerifications d1)\<rparr>,
                LinkExpired)
          else if cv_status verification = ''pending'' then (d1, CompleteFirst)
          else if cv_status verification = ''expired'' then (d1, ExpiredEarlier)
          else if cv_status verification = ''used'' then (d1, AlreadyUsed)
          else if cv_status verification = ''verified''
          then (case earnCredits d1 (u_id usr) now of
                  Inl e \<Rightarrow> (d1, Threw e)
                | Inr (d2, newCredits) \<Rightarrow>
                   (d2\<lparr>creditVerifications :=
                         map (\<lambda>v. if cv_token v = token then v\<lparr>cv_status := ''used''\<rparr>
                                   else v) (creditVerifications d2)\<rparr>,
                    CreditsAdded newCredits))
          else (d1, NoReply)))"

text \<open>
  \<^verbatim>\<open>earnCreditsHandler\<close>, registered for the commands \<^verbatim>\<open>/earnCredits\<close> and
  \<^verbatim>\<open>/earncredits\<close>. \<^verbatim>\<open>hoursRemaining || 0\<close> is 0 for a missing field.
\<close>

definition earnCreditsHandler ::
  "string list \<Rightarrow> db \<Rightarrow> string \<Rightarrow> string \<Rightarrow> string \<Rightarrow> string \<Rightarrow> string option \<Rightarrow> instant
     \<Rightarrow> db \<times> reply" where
  "earnCreditsHandler admins d tg name newId verificationToken shortUrl now =
     (case getOrCreateUser admins d tg name newId of (d1, usr, isNew) \<Rightarrow>
      (case canEarnCredits d1 (u_id usr) now of (d2, chk) \<Rightarrow>
         if \<not> canEarn chk
         then (d2, EarnBlocked (case hoursRemaining chk of None \<Rightarrow> 0 | Some h \<Rightarrow> h)
                               (case minutesRemaining chk of None \<Rightarrow> 0 | Some m \<Rightarrow> m))
         else
          (let d3 = d2\<lparr>creditVerifications := creditVerifications d2 @
                        [\<lparr>cv_userId = u_id usr, cv_token = verificationToken,
                          cv_status = ''pending'', creditsAmount = 2, cv_createdAt = now\<rparr>]\<rparr>
           in case shortUrl of
                None \<Rightarrow> (d3, LinkError)
              | Some url \<Rightarrow> (d3, EarnPrompt verificationToken url))))"

text \<open>
  \<^verbatim>\<open>bot.callbackQuery("earncredits")\<close>, the menu button. It reads the stored premium
  flag (\<^verbatim>\<open>userRecord[0]?.isPremium || false\<close>), calls \<^verbatim>\<open>canEarnCredits\<close> and only
  then looks at the flag.
\<close>

definition earncreditsCallback ::
  "string list \<Rightarrow> db \<Rightarrow> string \<Rightarrow> string \<Rightarrow> string \<Rightarrow> string \<Rightarrow> string option \<Rightarrow> instant
     \<Rightarrow> db \<times> reply" where
  "earncreditsCallback admins d tg name newId verificationToken shortUrl now =
     (case getOrCreateUser admins d tg name newId of (d1, usr, isNew) \<Rightarrow>
      (let premiumFlag = (case filter (\<lambda>u. u_id u = u_id usr) (users d1) of
                            [] \<Rightarrow> False
                          | u # _ \<Rightarrow> isPremium u)
       in case canEarnCredits d1 (u_id usr) now of (d2, chk) \<Rightarrow>
            if premiumFlag then (d2, PremiumNoCredits)
            else if \<not> canEarn chk
            then (d2, EarnBlocked (case hoursRemaining chk of None \<Rightarrow> 0 | Some h \<Rightarrow> h)
                                  (case minutesRemaining chk of None \<Rightarrow> 0 | Some m \<Rightarrow> m))
            else
             (let d3 = d2\<lparr>creditVerifications := creditVerifications d2 @
                           [\<lparr>cv_userId = u_id usr, cv_token = verificationToken,
                             cv_status = ''pending'', creditsAmount = 2,
                             cv_createdAt = now\<rparr>]\<rparr>
              in case shortUrl of
                   None \<Rightarrow> (d3, LinkError)
                 | Some url \<Rightarrow> (d3, EarnPrompt verificationToken url))))"

section \<open>Referrals\<close>

text \<open>
  The \<^verbatim>\<open>try\<close> block of the referral handling in \<^verbatim>\<open>bot.command("start")\<close>: the
  insert into \<^verbatim>\<open>referrals\<close>, whose column \<^verbatim>\<open>referred_id\<close> is unique, then the
  award \<^verbatim>\<open>credits = credits + 1\<close> on the referrer's row. A violated constraint
  throws at the insert, the \<^verbatim>\<open>catch\<close> swallows it and nothing is written. The
  result tells whether the row was inserted.
\<close>

definition registerReferral :: "db \<Rightarrow> string \<Rightarrow> string \<Rightarrow> db \<times> bool" where
  "registerReferral d referrer referred =
     (if list_ex (\<lambda>r. referredId r = referred) (referrals d) then (d, False)
      else (d\<lparr>referrals := referrals d @
                 [\<lparr>referrerId = referrer, referredId = referred, creditsAwarded = 1\<rparr>],
              users := map (\<lambda>u. if u_id u = referrer then u\<lparr>credits := credits u + 1\<rparr> else u)
                         (users d)\<rparr>,
            True))"

text \<open>
  \<^verbatim>\<open>bot.command("start")\<close>. \<open>botActive\<close> is \<^verbatim>\<open>getBotStatus()\<close>, \<open>startParam\<close>
  the second word of the message (\<open>None\<close> when there is none). The deep-link branch
  and everything after the referral handling only read the store and send messages.
  \<^verbatim>\<open>startParam.replace("ref_", "")\<close> removes the leading \<^verbatim>\<open>ref_\<close>.
\<close>

definition start ::
  "string list \<Rightarrow> db \<Rightarrow> bool \<Rightarrow> string \<Rightarrow> string \<Rightarrow> string \<Rightarrow> string option \<Rightarrow> db \<times> reply" where
  "start admins d botActive tg firstName newId startParam =
     (if \<not> botActive then (d, Offline)
      else
       (case getOrCreateUser admins d tg firstName newId of (d1, usr, isNew) \<Rightarrow>
          (let p = (case startParam of None \<Rightarrow> [] | Some s \<Rightarrow> s)
           in if p \<noteq> [] \<and> startsWith p ''movie_'' then (d1, MovieDetails)
              else if p \<noteq> [] \<and> startsWith p ''verified_'' then (d1, DirectClaimDisabled)
              else if p \<noteq> [] \<and> startsWith p ''ref_'' \<and> isNew
              then (let referrerTelegramId = drop 4 p
                    in if referrerTelegramId \<noteq> tg
                       then (case filter (\<lambda>u. username u = referrerTelegramId) (users d1) of
                               [] \<Rightarrow> (d1, Menu)
                             | r # _ \<Rightarrow> (fst (registerReferral d1 (u_id r) (u_id usr)), Menu))
                       else (d1, Menu))
              else (d1, Menu))))"

section \<open>Admin reset\<close>

text \<open>\<^verbatim>\<open>bot.command("reset")\<close>; \<open>targetUserId\<close> is the trimmed argument.\<close>

definition reset :: "string list \<Rightarrow> db \<Rightarrow> string \<Rightarrow> string \<Rightarrow> instant \<Rightarrow> db \<times> reply" where
  "reset admins d tg targetUserId now =
     (if \<not> isAdmin admins d tg then (d, AdminOnly)
      else if targetUserId = [] then (d, Usage)
      else (case filter (\<lambda>u. username u = targetUserId) (users d) of
              [] \<Rightarrow> (d, UserNotFound)
            | u # _ \<Rightarrow>
               (d\<lparr>users := map (\<lambda>x. if u_id x = u_id u
                                     then x\<lparr>credits := 0, lastCreditReset := Some now\<rparr>
                                     else x) (users d)\<rparr>,
                CreditsReset)))"

section \<open>Sequences of balance-mutating operations\<close>

text \<open>
  The five places of the source that write \<^verbatim>\<open>users.credits\<close>, run one after the
  other: \<^verbatim>\<open>earnCredits\<close>, \<^verbatim>\<open>spendCredit\<close>, \<^verbatim>\<open>canEarnCredits\<close>, the referral
  award inside \<^verbatim>\<open>/start\<close> and \<^verbatim>\<open>/reset\<close>. An \<^verbatim>\<open>earnCredits\<close> that throws leaves
  the store as it was.
\<close>

datatype operation =
    Earn string instant
  | Spend string
  | CanEarn string instant
  | Start bool string string string "string option"
  | Reset string string instant

fun step :: "string list \<Rightarrow> db \<Rightarrow> operation \<Rightarrow> db" where
  "step admins d (Earn userId now) =
     (case earnCredits d userId now of Inl e \<Rightarrow> d | Inr (d', n) \<Rightarrow> d')"
| "step admins d (Spend userId) = fst (spendCredit d userId)"
| "step admins d (CanEarn userId now) = fst (canEarnCredits d userId now)"
| "step admins d (Start botActive tg firstName newId startParam) =
     fst (start admins d botActive tg firstName newId startParam)"
| "step admins d (Reset tg targetUserId now) = fst (reset admins d tg targetUserId now)"

fun run :: "string list \<Rightarrow> db \<Rightarrow> operation list \<Rightarrow> db" where
  "run admins d [] = d"
| "run admins d (x # xs) = run admins (step admins d x) xs"

text \<open>The sum of the signed amounts of an account's entries in the transaction log.\<close>

definition logSum :: "db \<Rightarrow> string \<Rightarrow> int" where
  "logSum d userId =
     sum_list (map amount (filter (\<lambda>t. ct_userId t = userId) (creditTransactions d)))"

fun isEarnOrSpend :: "operation \<Rightarrow> bool" where
  "isEarnOrSpend (Earn userId now) = True"
| "isEarnOrSpend (Spend userId) = True"
| "isEarnOrSpend x = False"

section \<open>Example states\<close>

definition emptyDb :: db where
  "emptyDb = \<lparr>users = [], movies = [], movieAssets = [], creditTransactions = [],
              movieAccess = [], movieVerifications = [], creditVerifications = [],
              referrals = []\<rparr>"

definition alice :: user where
  "alice = \<lparr>u_id = ''u1'', username = ''1001'', displayName = ''Alice'', role = ''user'',
            u_status = ''active'', credits = 2, lastCreditReset = Some 0,
            isPremium = False, premiumExpiresAt = None\<rparr>"

definition film :: movie where
  "film = \<lparr>m_id = ''m1'', displayTitle = ''Film'', links = [''https://example.org/f''],
           m_status = ''published''\<rparr>"

definition aliceDb :: db where
  "aliceDb = emptyDb\<lparr>users := [alice]\<rparr>"

definition ledgerDb :: db where
  "ledgerDb = aliceDb\<lparr>creditTransactions :=
                 [\<lparr>ct_userId = ''u1'', amount = 2, reason = ''shortener_visit''\<rparr>]\<rparr>"

definition demoOps :: "operation list" where
  "demoOps = [Spend ''u1'', Start True ''2002'' ''Bob'' ''u2'' (Some ''ref_1001''),
              Spend ''u1'', Spend ''u1'', Spend ''u1'', Spend ''u2'',
              CanEarn ''u2'' 50000000, Earn ''u2'' 50000001, Spend ''u2'',
              Reset ''1001'' ''2002'' 50000002, Spend ''u2'']"

text \<open>Alice's account, one item, and one token of each kind for her, created at instant
  0, with the given token status and publish status.\<close>

definition tokenDb :: "string \<Rightarrow> string \<Rightarrow> db" where
  "tokenDb st pub =
     aliceDb\<lparr>movies := [film\<lparr>m_status := pub\<rparr>],
             movieVerifications :=
               [\<lparr>mv_userId = ''u1'', mv_movieId = ''m1'', mv_token = ''t1'', mv_status = st,
                 mv_createdAt = 0\<rparr>],
             creditVerifications :=
               [\<lparr>cv_userId = ''u1'', cv_token = ''c1'', cv_status = st, creditsAmount = 2,
                 cv_createdAt = 0\<rparr>]\<rparr>"

text \<open>Alice's verified token, created at instant 90000000, with a grant for the same
  item that ran out long before and a grant for another item.\<close>

definition renewDb :: db where
  "renewDb =
     aliceDb\<lparr>movies := [film],
             movieVerifications :=
               [\<lparr>mv_userId = ''u1'', mv_movieId = ''m1'', mv_token = ''t1'',
                 mv_status = ''verified'', mv_createdAt = 90000000\<rparr>],
             movieAccess :=
               [\<lparr>ma_userId = ''u1'', ma_movieId = ''m1'', unlockedAt = 0\<rparr>,
                \<lparr>ma_userId = ''u1'', ma_movieId = ''m2'', unlockedAt = 0\<rparr>]\<rparr>"

definition shopDb :: db where
  "shopDb = aliceDb\<lparr>movies := [film]\<rparr>"

text \<open>An account whose premium ran out at instant 500.\<close>

definition carol :: user where
  "carol = alice\<lparr>isPremium := True, premiumExpiresAt := Some 500\<rparr>"

definition carolDb :: db where
  "carolDb = emptyDb\<lparr>users := [carol], movies := [film]\<rparr>"

section \<open>Auxiliary facts about selects and updates\<close>

lemma filter_upd_same:
  "(\<And>x. u_id (f x) = u_id x) \<Longrightarrow>
   filter (\<lambda>x. u_id x = k) (map (\<lambda>x. if u_id x = k then f x else x) xs)
     = map f (filter (\<lambda>x. u_id x = k) xs)"
  by (induction xs) auto

lemma filter_upd_other:
  "(\<And>x. u_id (f x) = u_id x) \<Longrightarrow> j \<noteq> k \<Longrightarrow>
   filter (\<lambda>x. u_id x = j) (map (\<lambda>x. if u_id x = k then f x else x) xs)
     = filter (\<lambda>x. u_id x = j) xs"
  by (induction xs) auto

lemma filter_map_preserved:
  "(\<And>x. P (g x) = P x) \<Longrightarrow> filter P (map g xs) = map g (filter P xs)"
  by (induction xs) auto

text \<open>\<open>getOrCreateUser\<close> writes the users table only, keeps every balance, and finds an
  existing account again.\<close>

lemma getOrCreateUser_tables:
  assumes "getOrCreateUser admins d tg name newId = (d1, usr, isNew)"
  shows "movies d1 = movies d" "movieAssets d1 = movieAssets d"
    "creditTransactions d1 = creditTransactions d" "movieAccess d1 = movieAccess d"
    "movieVerifications d1 = movieVerifications d"
    "creditVerifications d1 = creditVerifications d" "referrals d1 = referrals d"
  using assms
  by (auto simp add: getOrCreateUser_def Let_def split: list.splits if_splits)

lemma getOrCreateUser_existing:
  assumes "filter (\<lambda>x. username x = tg) (users d) = u # rest"
  shows "\<exists>d1 usr u1 rest1. getOrCreateUser admins d tg name newId = (d1, usr, False)
           \<and> u_id usr = u_id u
           \<and> filter (\<lambda>x. username x = tg) (users d1) = u1 # rest1 \<and> u_id u1 = u_id u"
  using assms
  by (auto simp add: getOrCreateUser_def filter_map_preserved)

lemma getOrCreateUser_balance:
  assumes "getOrCreateUser admins d tg name newId = (d1, usr, isNew)"
    and "balance d k = Some b"
  shows "balance d1 k = Some b"
  using assms
  by (auto simp add: getOrCreateUser_def balance_def Let_def filter_map_preserved
      split: list.splits if_splits)

lemma getOrCreateUser_nonneg:
  assumes "getOrCreateUser admins d tg name newId = (d1, usr, isNew)"
    and "list_all (\<lambda>u. 0 \<le> credits u) (users d)"
  shows "list_all (\<lambda>u. 0 \<le> credits u) (users d1)"
  using assms
  by (auto simp add: getOrCreateUser_def Let_def list_all_iff split: list.splits if_splits)

section \<open>Spending a credit\<close>

text \<open>
  Claim C8, with the reason tag the source writes. For an account (the row that the
  select by id returns first), \<open>spendCredit\<close> reports failure exactly when the balance
  is below 1; it then returns the store unchanged together with the current balance,
  as an ordinary result. Otherwise it appends one entry of amount -1 to the
  transaction log, with the reason \<^verbatim>\<open>link_access\<close>, lowers the cached balance of
  that account by exactly 1, leaves every other balance alone and returns the new
  balance.
\<close>

theorem spendCredit_result:
  assumes "filter (\<lambda>x. u_id x = userId) (users d) = u # rest"
  shows "fst (snd (spendCredit d userId)) = (\<not> credits u < 1)
       \<and> (credits u < 1 \<longrightarrow> spendCredit d userId = (d, False, credits u))
       \<and> (\<not> credits u < 1 \<longrightarrow>
            creditTransactions (fst (spendCredit d userId))
              = creditTransactions d @
                  [\<lparr>ct_userId = userId, amount = - 1, reason = ''link_access''\<rparr>]
          \<and> balance (fst (spendCredit d userId)) userId = Some (credits u - 1)
          \<and> (\<forall>v. v \<noteq> userId \<longrightarrow> balance (fst (spendCredit d userId)) v = balance d v)
          \<and> snd (snd (spendCredit d userId)) = credits u - 1)"
  using assms
  by (simp add: spendCredit_def balance_def Let_def filter_upd_same filter_upd_other)

text \<open>The theorem at a balance of 2 (success) and at a balance of 0 (failure).\<close>

theorem spendCredit_result_witness:
  "filter (\<lambda>x. u_id x = ''u1'') (users aliceDb) = [alice]
   \<and> \<not> credits alice < 1
   \<and> fst (snd (spendCredit aliceDb ''u1''))
   \<and> creditTransactions (fst (spendCredit aliceDb ''u1''))
       = [\<lparr>ct_userId = ''u1'', amount = - 1, reason = ''link_access''\<rparr>]
   \<and> balance (fst (spendCredit aliceDb ''u1'')) ''u1'' = Some 1
   \<and> filter (\<lambda>x. u_id x = ''u1'') (users (aliceDb\<lparr>users := [alice\<lparr>credits := 0\<rparr>]\<rparr>))
       = [alice\<lparr>credits := 0\<rparr>]
   \<and> credits (alice\<lparr>credits := 0\<rparr>) < 1
   \<and> spendCredit (aliceDb\<lparr>users := [alice\<lparr>credits := 0\<rparr>]\<rparr>) ''u1''
       = (aliceDb\<lparr>users := [alice\<lparr>credits := 0\<rparr>]\<rparr>, False, 0)"
proof -
  have h1: "filter (\<lambda>x. u_id x = ''u1'') (users aliceDb) = alice # []"
    by (simp add: aliceDb_def alice_def)
  have h2: "filter (\<lambda>x. u_id x = ''u1'') (users (aliceDb\<lparr>users := [alice\<lparr>credits := 0\<rparr>]\<rparr>))
              = alice\<lparr>credits := 0\<rparr> # []"
    by (simp add: alice_def)
  have c: "credits alice = 2" "creditTransactions aliceDb = []"
    by (simp_all add: alice_def aliceDb_def emptyDb_def)
  show ?thesis
    using h1 h2 c spendCredit_result [OF h1] spendCredit_result [OF h2] by simp
qed

text \<open>The claim as worded names the reason \<^verbatim>\<open>access\<close>: a successful spend does not
  append that entry.\<close>

theorem spendCredit_reason_counterexample:
  "fst (snd (spendCredit aliceDb ''u1''))
   \<and> creditTransactions (fst (spendCredit aliceDb ''u1''))
       \<noteq> creditTransactions aliceDb @
           [\<lparr>ct_userId = ''u1'', amount = - 1, reason = ''access''\<rparr>]"
  by (simp add: spendCredit_def aliceDb_def emptyDb_def alice_def Let_def)

section \<open>Earning cooldown\<close>

text \<open>
  Claim C4. For an account, \<open>canEarnCredits\<close> takes the time since \<open>lastCreditReset\<close>,
  an unset one counting as 13 hours. When that time is at least 12 hours the account's
  balance becomes 0, its \<open>lastCreditReset\<close> becomes \<open>now\<close>, no other account changes
  and the answer is allowed. Otherwise, with a balance of at least 2, nothing is
  written and the answer is blocked, the remaining time being 12 hours minus the
  elapsed time, given as whole hours and the whole minutes beyond them. Otherwise the
  answer is allowed and nothing is written.
\<close>

theorem canEarnCredits_spec:
  assumes "filter (\<lambda>x. u_id x = userId) (users d) = u # rest"
  shows "((lastCreditReset u = None
            \<or> (\<exists>l. lastCreditReset u = Some l \<and> now - l \<ge> 12 * 3600000)) \<longrightarrow>
            canEarn (snd (canEarnCredits d userId now))
          \<and> account (fst (canEarnCredits d userId now)) userId
              = Some (u\<lparr>credits := 0, lastCreditReset := Some now\<rparr>)
          \<and> (\<forall>v. v \<noteq> userId \<longrightarrow> account (fst (canEarnCredits d userId now)) v = account d v))
       \<and> (\<forall>l. lastCreditReset u = Some l \<and> now - l < 12 * 3600000 \<and> credits u \<ge> 2 \<longrightarrow>
            fst (canEarnCredits d userId now) = d
          \<and> \<not> canEarn (snd (canEarnCredits d userId now))
          \<and> hoursRemaining (snd (canEarnCredits d userId now))
              = Some ((12 * 3600000 - (now - l)) div 3600000)
          \<and> minutesRemaining (snd (canEarnCredits d userId now))
              = Some (((12 * 3600000 - (now - l)) mod 3600000) div 60000))
       \<and> (\<forall>l. lastCreditReset u = Some l \<and> now - l < 12 * 3600000 \<and> credits u < 2 \<longrightarrow>
            canEarnCredits d userId now
              = (d, \<lparr>canEarn = True, hoursRemaining = None, minutesRemaining = None\<rparr>))"
  using assms
  by (auto simp add: canEarnCredits_def account_def Let_def filter_upd_same filter_upd_other)

text \<open>The theorem at the 12-hour boundary, one millisecond before it, one minute after
  a reset, below the cap, and for an unset \<open>lastCreditReset\<close>.\<close>

theorem canEarnCredits_spec_witness:
  "filter (\<lambda>x. u_id x = ''u1'') (users aliceDb) = [alice]
   \<and> lastCreditReset alice = Some 0 \<and> credits alice \<ge> 2
   \<and> (43200000::int) - 0 \<ge> 12 * 3600000
   \<and> canEarn (snd (canEarnCredits aliceDb ''u1'' 43200000))
   \<and> account (fst (canEarnCredits aliceDb ''u1'' 43200000)) ''u1''
       = Some (alice\<lparr>credits := 0, lastCreditReset := Some 43200000\<rparr>)
   \<and> (43199999::int) - 0 < 12 * 3600000
   \<and> fst (canEarnCredits aliceDb ''u1'' 43199999) = aliceDb
   \<and> \<not> canEarn (snd (canEarnCredits aliceDb ''u1'' 43199999))
   \<and> hoursRemaining (snd (canEarnCredits aliceDb ''u1'' 60000)) = Some 11
   \<and> minutesRemaining (snd (canEarnCredits aliceDb ''u1'' 60000)) = Some 59
   \<and> filter (\<lambda>x. u_id x = ''u1'') (users (aliceDb\<lparr>users := [alice\<lparr>credits := 1\<rparr>]\<rparr>))
       = [alice\<lparr>credits := 1\<rparr>]
   \<and> canEarnCredits (aliceDb\<lparr>users := [alice\<lparr>credits := 1\<rparr>]\<rparr>) ''u1'' 60000
       = (aliceDb\<lparr>users := [alice\<lparr>credits := 1\<rparr>]\<rparr>,
          \<lparr>canEarn = True, hoursRemaining = None, minutesRemaining = None\<rparr>)
   \<and> filter (\<lambda>x. u_id x = ''u1'')
        (users (aliceDb\<lparr>users := [alice\<lparr>lastCreditReset := None\<rparr>]\<rparr>))
       = [alice\<lparr>lastCreditReset := None\<rparr>]
   \<and> account (fst (canEarnCredits (aliceDb\<lparr>users := [alice\<lparr>lastCreditReset := None\<rparr>]\<rparr>)
                      ''u1'' 60000)) ''u1''
       = Some (alice\<lparr>credits := 0, lastCreditReset := Some 60000\<rparr>)"
proof -
  have h1: "filter (\<lambda>x. u_id x = ''u1'') (users aliceDb) = alice # []"
    by (simp add: aliceDb_def alice_def)
  have h2: "filter (\<lambda>x. u_id x = ''u1'') (users (aliceDb\<lparr>users := [alice\<lparr>credits := 1\<rparr>]\<rparr>))
              = alice\<lparr>credits := 1\<rparr> # []"
    by (simp add: alice_def)
  have h3: "filter (\<lambda>x. u_id x = ''u1'')
              (users (aliceDb\<lparr>users := [alice\<lparr>lastCreditReset := None\<rparr>]\<rparr>))
              = alice\<lparr>lastCreditReset := None\<rparr> # []"
    by (simp add: alice_def)
  have c: "credits alice = 2" "lastCreditReset alice = Some 0"
    by (simp_all add: alice_def)
  show ?thesis
    using h1 h2 h3 c
      canEarnCredits_spec [OF h1, of 43200000]
      canEarnCredits_spec [OF h1, of 43199999]
      canEarnCredits_spec [OF h1, of 60000]
      canEarnCredits_spec [OF h2, of 60000]
      canEarnCredits_spec [OF h3, of 60000]
    by simp
qed

section \<open>The balance is never negative\<close>

lemma filter_head_mem: "filter P xs = u # rest \<Longrightarrow> u \<in> set xs \<and> P u"
proof -
  assume a: "filter P xs = u # rest"
  have "u \<in> set (filter P xs)" by (simp add: a)
  then show ?thesis by simp
qed

lemma earnCredits_nonneg:
  assumes "list_all (\<lambda>u. 0 \<le> credits u) (users d)"
    and "earnCredits d userId now = Inr (d', n)"
  shows "list_all (\<lambda>u. 0 \<le> credits u) (users d')"
proof (cases "filter (\<lambda>u. u_id u = userId) (users d)")
  case Nil
  with assms(2) show ?thesis by (simp add: earnCredits_def)
next
  case (Cons u rest)
  then have "u \<in> set (users d)" using filter_head_mem by fast
  with assms(1) have "0 \<le> credits u" by (simp add: list_all_iff)
  with assms Cons show ?thesis
    by (auto simp add: earnCredits_def Let_def list_all_iff)
qed

lemma spendCredit_nonneg:
  assumes "list_all (\<lambda>u. 0 \<le> credits u) (users d)"
  shows "list_all (\<lambda>u. 0 \<le> credits u) (users (fst (spendCredit d userId)))"
  using assms
  by (auto simp add: spendCredit_def Let_def list_all_iff split: list.splits)

lemma canEarnCredits_nonneg:
  assumes "list_all (\<lambda>u. 0 \<le> credits u) (users d)"
  shows "list_all (\<lambda>u. 0 \<le> credits u) (users (fst (canEarnCredits d userId now)))"
  using assms
  by (auto simp add: canEarnCredits_def Let_def list_all_iff split: list.splits option.splits)

lemma registerReferral_nonneg:
  assumes "list_all (\<lambda>u. 0 \<le> credits u) (users d)"
  shows "list_all (\<lambda>u. 0 \<le> credits u) (users (fst (registerReferral d a b)))"
  using assms
  by (auto simp add: registerReferral_def list_all_iff)

lemma start_nonneg:
  assumes "list_all (\<lambda>u. 0 \<le> credits u) (users d)"
  shows "list_all (\<lambda>u. 0 \<le> credits u)
           (users (fst (start admins d botActive tg firstName newId startParam)))"
proof (cases "getOrCreateUser admins d tg firstName newId")
  case (fields d1 usr isNew)
  then have n1: "list_all (\<lambda>u. 0 \<le> credits u) (users d1)"
    using assms getOrCreateUser_nonneg by blast
  show ?thesis
    using fields n1 registerReferral_nonneg [OF n1]
    by (simp add: start_def Let_def assms split: list.splits)
qed

lemma reset_nonneg:
  assumes "list_all (\<lambda>u. 0 \<le> credits u) (users d)"
  shows "list_all (\<lambda>u. 0 \<le> credits u) (users (fst (reset admins d tg target now)))"
  using assms
  by (auto simp add: reset_def list_all_iff split: list.splits)

lemma step_nonneg:
  assumes "list_all (\<lambda>u. 0 \<le> credits u) (users d)"
  shows "list_all (\<lambda>u. 0 \<le> credits u) (users (step admins d x))"
proof (cases x)
  case (Earn userId now)
  then show ?thesis
    using assms earnCredits_nonneg [OF assms]
    by (auto split: sum.splits)
next
  case (Spend userId)
  then show ?thesis using spendCredit_nonneg [OF assms] by simp
next
  case (CanEarn userId now)
  then show ?thesis using canEarnCredits_nonneg [OF assms] by simp
next
  case (Start botActive tg firstName newId startParam)
  then show ?thesis using start_nonneg [OF assms] by simp
next
  case (Reset tg target now)
  then show ?thesis using reset_nonneg [OF assms] by simp
qed

text \<open>
  Claim C5. When no stored balance is negative, none is after any sequence of the
  operations that write a balance: earn, spend, the cycle reset of \<open>canEarnCredits\<close>,
  the referral award of \<^verbatim>\<open>/start\<close> and the admin reset. A new account starts at 0.
\<close>

theorem balance_never_negative:
  assumes "list_all (\<lambda>u. 0 \<le> credits u) (users d)"
  shows "list_all (\<lambda>u. 0 \<le> credits u) (users (run admins d ops))"
  using assms
proof (induction ops arbitrary: d)
  case Nil
  then show ?case by simp
next
  case (Cons x xs)
  then show ?case using step_nonneg by simp
qed

text \<open>Eleven operations on Alice's account and a referred newcomer, spending more
  often than there are credits.\<close>

theorem balance_never_negative_witness:
  "list_all (\<lambda>u. 0 \<le> credits u) (users aliceDb)
   \<and> list_all (\<lambda>u. 0 \<le> credits u) (users (run [''1001''] aliceDb demoOps))
   \<and> map credits (users (run [''1001''] aliceDb demoOps)) = [0, 0]"
proof -
  have h: "list_all (\<lambda>u. 0 \<le> credits u) (users aliceDb)"
    by (simp add: aliceDb_def alice_def)
  have e: "map credits (users (run [''1001''] aliceDb demoOps)) = [0, 0]"
    by (simp add: demoOps_def aliceDb_def alice_def emptyDb_def spendCredit_def start_def
        getOrCreateUser_def registerReferral_def canEarnCredits_def earnCredits_def
        reset_def isAdmin_def startsWith_def Let_def)
  show ?thesis using h e balance_never_negative [OF h, of "[''1001'']" demoOps] by simp
qed

section \<open>The transaction log\<close>

lemma step_log_extends:
  "\<exists>ys. creditTransactions (step admins d x) = creditTransactions d @ ys"
proof (cases x)
  case (Earn userId now)
  then show ?thesis
    by (auto simp add: earnCredits_def Let_def split: list.splits)
next
  case (Spend userId)
  then show ?thesis
    by (auto simp add: spendCredit_def Let_def split: list.splits)
next
  case (CanEarn userId now)
  then show ?thesis
    by (auto simp add: canEarnCredits_def Let_def split: list.splits)
next
  case (Start botActive tg firstName newId startParam)
  obtain d1 usr isNew where g: "getOrCreateUser admins d tg firstName newId = (d1, usr, isNew)"
    by (cases "getOrCreateUser admins d tg firstName newId")
  have "creditTransactions d1 = creditTransactions d"
    using getOrCreateUser_tables(3) [OF g] .
  then show ?thesis
    using Start g
    by (auto simp add: start_def registerReferral_def Let_def split: list.splits)
next
  case (Reset tg target now)
  then show ?thesis
    by (auto simp add: reset_def split: list.splits)
qed

lemma run_log_extends:
  "\<exists>ys. creditTransactions (run admins d ops) = creditTransactions d @ ys"
proof (induction ops arbitrary: d)
  case Nil
  then show ?case by simp
next
  case (Cons x xs)
  obtain ys where a: "creditTransactions (step admins d x) = creditTransactions d @ ys"
    using step_log_extends by blast
  obtain zs where b: "creditTransactions (run admins (step admins d x) xs)
                        = creditTransactions (step admins d x) @ zs"
    using Cons.IH by blast
  show ?case using a b by simp
qed

lemma earnCredits_drift:
  assumes "earnCredits d userId now = Inr (d', n)" and "balance d k = Some b"
  shows "balance d' k = Some (b + (logSum d' k - logSum d k))"
  using assms
  by (cases "k = userId")
     (auto simp add: earnCredits_def balance_def logSum_def Let_def filter_upd_same
        filter_upd_other split: list.splits)

lemma spendCredit_drift:
  assumes "balance d k = Some b"
  shows "balance (fst (spendCredit d userId)) k
           = Some (b + (logSum (fst (spendCredit d userId)) k - logSum d k))"
  using assms
  by (cases "k = userId")
     (auto simp add: spendCredit_def balance_def logSum_def Let_def filter_upd_same
        filter_upd_other split: list.splits)

lemma step_drift:
  assumes "isEarnOrSpend x" and "balance d k = Some b"
  shows "balance (step admins d x) k
           = Some (b + (logSum (step admins d x) k - logSum d k))"
proof (cases x)
  case (Earn userId now)
  show ?thesis
  proof (cases "earnCredits d userId now")
    case (Inl e)
    with Earn assms show ?thesis by simp
  next
    case (Inr r)
    then obtain d' n where "earnCredits d userId now = Inr (d', n)" by (cases r) simp
    with Earn earnCredits_drift [OF this assms(2)] show ?thesis by simp
  qed
next
  case (Spend userId)
  then show ?thesis using spendCredit_drift [OF assms(2)] by simp
qed (use assms in simp_all)

lemma run_drift:
  assumes "list_all isEarnOrSpend ops" and "balance d k = Some b"
  shows "balance (run admins d ops) k
           = Some (b + (logSum (run admins d ops) k - logSum d k))"
  using assms
proof (induction ops arbitrary: d b)
  case Nil
  then show ?case by simp
next
  case (Cons x xs)
  have s: "balance (step admins d x) k
             = Some (b + (logSum (step admins d x) k - logSum d k))"
    using step_drift Cons.prems by simp
  have "balance (run admins (step admins d x) xs) k
          = Some (b + (logSum (step admins d x) k - logSum d k)
                  + (logSum (run admins (step admins d x) xs) k
                     - logSum (step admins d x) k))"
    using Cons.IH [OF _ s] Cons.prems(1) by simp
  then show ?case by simp
qed

lemma step_other_appends_nothing:
  assumes "\<not> isEarnOrSpend x"
  shows "creditTransactions (step admins d x) = creditTransactions d"
proof (cases x)
  case (CanEarn userId now)
  then show ?thesis
    by (auto simp add: canEarnCredits_def Let_def split: list.splits)
next
  case (Start botActive tg firstName newId startParam)
  obtain d1 usr isNew where g: "getOrCreateUser admins d tg firstName newId = (d1, usr, isNew)"
    by (cases "getOrCreateUser admins d tg firstName newId")
  have "creditTransactions d1 = creditTransactions d"
    using getOrCreateUser_tables(3) [OF g] .
  then show ?thesis
    using Start g
    by (auto simp add: start_def registerReferral_def Let_def split: list.splits)
next
  case (Reset tg target now)
  then show ?thesis
    by (auto simp add: reset_def split: list.splits)
qed (use assms in simp_all)

text \<open>
  Claim C6, as the source has it. The transaction log is append-only: whatever the
  operations, the log before them is an initial segment of the log after them. Earn
  and spend keep the log and the cached balance in step: along any sequence of earns
  and spends, a balance that equals the sum of the account's entries still equals it
  at the end. The three other writers of a balance (the cycle reset of
  \<open>canEarnCredits\<close>, the referral award and the admin reset) append no entry.
\<close>

theorem log_append_only_and_earn_spend_consistent:
  "take (length (creditTransactions d)) (creditTransactions (run admins d ops))
     = creditTransactions d
   \<and> (list_all isEarnOrSpend ops \<and> balance d k = Some (logSum d k) \<longrightarrow>
        balance (run admins d ops) k = Some (logSum (run admins d ops) k))
   \<and> (\<not> isEarnOrSpend x \<longrightarrow>
        creditTransactions (step admins d x) = creditTransactions d)"
proof -
  obtain ys where "creditTransactions (run admins d ops) = creditTransactions d @ ys"
    using run_log_extends by blast
  then have a: "take (length (creditTransactions d)) (creditTransactions (run admins d ops))
                  = creditTransactions d" by simp
  have b: "list_all isEarnOrSpend ops \<and> balance d k = Some (logSum d k) \<longrightarrow>
        balance (run admins d ops) k = Some (logSum (run admins d ops) k)"
    using run_drift [of ops d k "logSum d k" admins] by auto
  show ?thesis using a b step_other_appends_nothing by blast
qed

text \<open>An earn and three spends on an account whose log holds its balance; and the
  admin reset, which appends nothing.\<close>

theorem log_consistency_witness:
  "list_all isEarnOrSpend [Earn ''u1'' 5, Spend ''u1'', Spend ''u1'', Spend ''u1'']
   \<and> balance ledgerDb ''u1'' = Some (logSum ledgerDb ''u1'')
   \<and> balance (run [] ledgerDb [Earn ''u1'' 5, Spend ''u1'', Spend ''u1'', Spend ''u1'']) ''u1''
       = Some (logSum (run [] ledgerDb [Earn ''u1'' 5, Spend ''u1'', Spend ''u1'', Spend ''u1''])
                 ''u1'')
   \<and> logSum (run [] ledgerDb [Earn ''u1'' 5, Spend ''u1'', Spend ''u1'', Spend ''u1'']) ''u1'' = 1
   \<and> \<not> isEarnOrSpend (Reset ''1001'' ''1001'' 7)
   \<and> creditTransactions (step [] ledgerDb (Reset ''1001'' ''1001'' 7))
       = creditTransactions ledgerDb"
proof -
  have h: "list_all isEarnOrSpend [Earn ''u1'' 5, Spend ''u1'', Spend ''u1'', Spend ''u1'']
           \<and> balance ledgerDb ''u1'' = Some (logSum ledgerDb ''u1'')"
    by (simp add: ledgerDb_def aliceDb_def alice_def emptyDb_def balance_def logSum_def)
  have e: "logSum (run [] ledgerDb [Earn ''u1'' 5, Spend ''u1'', Spend ''u1'', Spend ''u1''])
             ''u1'' = 1"
    by (simp add: ledgerDb_def aliceDb_def alice_def emptyDb_def logSum_def
        earnCredits_def spendCredit_def Let_def)
  show ?thesis
    using h e log_append_only_and_earn_spend_consistent
      [of ledgerDb "[]" "[Earn ''u1'' 5, Spend ''u1'', Spend ''u1'', Spend ''u1'']" "''u1''"
          "Reset ''1001'' ''1001'' 7"]
    by simp
qed

text \<open>The claim as worded fails at the cycle reset: an account with balance 2 and one
  entry of +2, asked \<open>canEarnCredits\<close> 12 hours after its last reset, has balance 0
  while its entries still sum to 2.\<close>

theorem log_consistency_counterexample:
  "balance ledgerDb ''u1'' = Some (logSum ledgerDb ''u1'')
   \<and> balance (run [] ledgerDb [CanEarn ''u1'' 43200000]) ''u1'' = Some 0
   \<and> logSum (run [] ledgerDb [CanEarn ''u1'' 43200000]) ''u1'' = 2"
  by (simp add: ledgerDb_def aliceDb_def alice_def emptyDb_def balance_def logSum_def
      canEarnCredits_def Let_def)

section \<open>Checking a token that was used\<close>

lemma filter_token_upd:
  "filter (\<lambda>x. mv_token x = t) (map (\<lambda>x. if mv_token x = t then x\<lparr>mv_status := s\<rparr> else x) xs)
     = map (\<lambda>x. x\<lparr>mv_status := s\<rparr>) (filter (\<lambda>x. mv_token x = t) xs)"
  by (induction xs) auto

lemma filter_ctoken_upd:
  "filter (\<lambda>x. cv_token x = t) (map (\<lambda>x. if cv_token x = t then x\<lparr>cv_status := s\<rparr> else x) xs)
     = map (\<lambda>x. x\<lparr>cv_status := s\<rparr>) (filter (\<lambda>x. cv_token x = t) xs)"
  by (induction xs) auto

lemma checkverify_used:
  assumes g: "getOrCreateUser admins d tg name newId = (d1, usr, isNew)"
    and v: "filter (\<lambda>x. mv_token x = token) (movieVerifications d) = v # vrest"
    and o: "mv_userId v = u_id usr"
    and s: "mv_status v = ''used''"
  shows "checkverify admins d tg name newId token now =
           (if now - mv_createdAt v > 3600000
            then (d1\<lparr>movieVerifications :=
                       map (\<lambda>x. if mv_token x = token then x\<lparr>mv_status := ''expired''\<rparr> else x)
                         (movieVerifications d)\<rparr>, LinkExpired)
            else (d1, AlreadyUsed))"
  using g v o s getOrCreateUser_tables(5) [OF g]
  by (simp add: checkverify_def)

lemma checkcredit_used:
  assumes g: "getOrCreateUser admins d tg name newId = (d1, usr, isNew)"
    and v: "filter (\<lambda>x. cv_token x = token) (creditVerifications d) = v # vrest"
    and o: "cv_userId v = u_id usr"
    and s: "cv_status v = ''used''"
  shows "checkcredit admins d tg name newId token now =
           (if now - cv_createdAt v > 3600000
            then (d1\<lparr>creditVerifications :=
                       map (\<lambda>x. if cv_token x = token then x\<lparr>cv_status := ''expired''\<rparr> else x)
                         (creditVerifications d)\<rparr>, LinkExpired)
            else (d1, AlreadyUsed))"
  using g v o s getOrCreateUser_tables(6) [OF g]
  by (simp add: checkcredit_def)

text \<open>
  Claim C1, as the source has it, for both kinds of token. The owner is the account
  that \<open>getOrCreateUser\<close> returns for the requester. A check of a used token by its
  owner no later than one hour after the token's creation answers already-used,
  leaves the token used and writes nothing else. A check later than that answers
  expired and overwrites the stored status with \<^verbatim>\<open>expired\<close>: the time test comes
  before any look at the status. In neither case is access granted, a transaction
  logged or a balance changed, so a used token is never claimed again and never
  returns to pending or verified.
\<close>

theorem used_token_check:
  assumes g: "getOrCreateUser admins d tg name newId = (d1, usr, isNew)"
  shows "(\<forall>v vrest. filter (\<lambda>x. mv_token x = token) (movieVerifications d) = v # vrest
            \<and> mv_userId v = u_id usr \<and> mv_status v = ''used'' \<longrightarrow>
            (now - mv_createdAt v \<le> 3600000 \<longrightarrow>
               checkverify admins d tg name newId token now = (d1, AlreadyUsed)
             \<and> filter (\<lambda>x. mv_token x = token) (movieVerifications d1) = v # vrest
             \<and> movieAccess d1 = movieAccess d)
          \<and> (now - mv_createdAt v > 3600000 \<longrightarrow>
               snd (checkverify admins d tg name newId token now) = LinkExpired
             \<and> filter (\<lambda>x. mv_token x = token)
                 (movieVerifications (fst (checkverify admins d tg name newId token now)))
                 = map (\<lambda>x. x\<lparr>mv_status := ''expired''\<rparr>) (v # vrest)
             \<and> movieAccess (fst (checkverify admins d tg name newId token now))
                 = movieAccess d))
       \<and> (\<forall>v vrest. filter (\<lambda>x. cv_token x = token) (creditVerifications d) = v # vrest
            \<and> cv_userId v = u_id usr \<and> cv_status v = ''used'' \<longrightarrow>
            (now - cv_createdAt v \<le> 3600000 \<longrightarrow>
               checkcredit admins d tg name newId token now = (d1, AlreadyUsed)
             \<and> filter (\<lambda>x. cv_token x = token) (creditVerifications d1) = v # vrest
             \<and> creditTransactions d1 = creditTransactions d
             \<and> (\<forall>k b. balance d k = Some b \<longrightarrow> balance d1 k = Some b))
          \<and> (now - cv_createdAt v > 3600000 \<longrightarrow>
               snd (checkcredit admins d tg name newId token now) = LinkExpired
             \<and> filter (\<lambda>x. cv_token x = token)
                 (creditVerifications (fst (checkcredit admins d tg name newId token now)))
                 = map (\<lambda>x. x\<lparr>cv_status := ''expired''\<rparr>) (v # vrest)
             \<and> creditTransactions (fst (checkcredit admins d tg name newId token now))
                 = creditTransactions d
             \<and> (\<forall>k b. balance d k = Some b \<longrightarrow>
                   balance (fst (checkcredit admins d tg name newId token now)) k = Some b)))"
proof -
  note t = getOrCreateUser_tables [OF g]
  have m: "\<And>v vrest. filter (\<lambda>x. mv_token x = token) (movieVerifications d) = v # vrest
            \<Longrightarrow> mv_userId v = u_id usr \<Longrightarrow> mv_status v = ''used'' \<Longrightarrow>
            (now - mv_createdAt v \<le> 3600000 \<longrightarrow>
               checkverify admins d tg name newId token now = (d1, AlreadyUsed)
             \<and> filter (\<lambda>x. mv_token x = token) (movieVerifications d1) = v # vrest
             \<and> movieAccess d1 = movieAccess d)
          \<and> (now - mv_createdAt v > 3600000 \<longrightarrow>
               snd (checkverify admins d tg name newId token now) = LinkExpired
             \<and> filter (\<lambda>x. mv_token x = token)
                 (movieVerifications (fst (checkverify admins d tg name newId token now)))
                 = map (\<lambda>x. x\<lparr>mv_status := ''expired''\<rparr>) (v # vrest)
             \<and> movieAccess (fst (checkverify admins d tg name newId token now))
                 = movieAccess d)"
    using t by (simp add: checkverify_used [OF g] filter_token_upd)
  have b: "\<And>k b. balance d k = Some b \<Longrightarrow> balance d1 k = Some b"
    using getOrCreateUser_balance [OF g] .
  have c: "\<And>v vrest. filter (\<lambda>x. cv_token x = token) (creditVerifications d) = v # vrest
            \<Longrightarrow> cv_userId v = u_id usr \<Longrightarrow> cv_status v = ''used'' \<Longrightarrow>
            (now - cv_createdAt v \<le> 3600000 \<longrightarrow>
               checkcredit admins d tg name newId token now = (d1, AlreadyUsed)
             \<and> filter (\<lambda>x. cv_token x = token) (creditVerifications d1) = v # vrest
             \<and> creditTransactions d1 = creditTransactions d
             \<and> (\<forall>k b. balance d k = Some b \<longrightarrow> balance d1 k = Some b))
          \<and> (now - cv_createdAt v > 3600000 \<longrightarrow>
               snd (checkcredit admins d tg name newId token now) = LinkExpired
             \<and> filter (\<lambda>x. cv_token x = token)
                 (creditVerifications (fst (checkcredit admins d tg name newId token now)))
                 = map (\<lambda>x. x\<lparr>cv_status := ''expired''\<rparr>) (v # vrest)
             \<and> creditTransactions (fst (checkcredit admins d tg name newId token now))
                 = creditTransactions d
             \<and> (\<forall>k b. balance d k = Some b \<longrightarrow>
                   balance (fst (checkcredit admins d tg name newId token now)) k = Some b))"
    using t b by (simp add: checkcredit_used [OF g] filter_ctoken_upd balance_def)
  show ?thesis using m c by blast
qed

text \<open>A used token of each kind, checked by its owner one second and one hour plus a
  millisecond after its creation.\<close>

theorem used_token_check_witness:
  "getOrCreateUser [] (tokenDb ''used'' ''published'') ''1001'' ''Alice'' ''u9''
     = (tokenDb ''used'' ''published'', alice, False)
   \<and> (1000::int) - 0 \<le> 3600000
   \<and> checkverify [] (tokenDb ''used'' ''published'') ''1001'' ''Alice'' ''u9'' ''t1'' 1000
       = (tokenDb ''used'' ''published'', AlreadyUsed)
   \<and> checkcredit [] (tokenDb ''used'' ''published'') ''1001'' ''Alice'' ''u9'' ''c1'' 1000
       = (tokenDb ''used'' ''published'', AlreadyUsed)
   \<and> (3600001::int) - 0 > 3600000
   \<and> snd (checkverify [] (tokenDb ''used'' ''published'') ''1001'' ''Alice'' ''u9'' ''t1''
             3600001) = LinkExpired
   \<and> snd (checkcredit [] (tokenDb ''used'' ''published'') ''1001'' ''Alice'' ''u9'' ''c1''
             3600001) = LinkExpired"
proof -
  let ?d = "tokenDb ''used'' ''published''"
  let ?v = "\<lparr>mv_userId = ''u1'', mv_movieId = ''m1'', mv_token = ''t1'',
             mv_status = ''used'', mv_createdAt = 0\<rparr>"
  let ?c = "\<lparr>cv_userId = ''u1'', cv_token = ''c1'', cv_status = ''used'', creditsAmount = 2,
             cv_createdAt = 0\<rparr>"
  have g: "getOrCreateUser [] ?d ''1001'' ''Alice'' ''u9'' = (?d, alice, False)"
    by (simp add: getOrCreateUser_def tokenDb_def aliceDb_def alice_def startsWith_def)
  have v: "filter (\<lambda>x. mv_token x = ''t1'') (movieVerifications ?d) = ?v # []"
    by (simp add: tokenDb_def)
  have c: "filter (\<lambda>x. cv_token x = ''c1'') (creditVerifications ?d) = ?c # []"
    by (simp add: tokenDb_def)
  have o: "mv_userId ?v = u_id alice" "cv_userId ?c = u_id alice" by (simp_all add: alice_def)
  have s: "mv_status ?v = ''used''" "cv_status ?c = ''used''" by simp_all
  note early = used_token_check [OF g, of _ 1000]
  note late = used_token_check [OF g, of _ 3600001]
  have m1: "checkverify [] ?d ''1001'' ''Alice'' ''u9'' ''t1'' 1000 = (?d, AlreadyUsed)"
    using early [of "''t1''", THEN conjunct1, rule_format, of ?v "[]"] v o(1) by simp
  have c1: "checkcredit [] ?d ''1001'' ''Alice'' ''u9'' ''c1'' 1000 = (?d, AlreadyUsed)"
    using early [of "''c1''", THEN conjunct2, rule_format, of ?c "[]"] c o(2) by simp
  have m2: "snd (checkverify [] ?d ''1001'' ''Alice'' ''u9'' ''t1'' 3600001) = LinkExpired"
    using late [of "''t1''", THEN conjunct1, rule_format, of ?v "[]"] v o(1) by simp
  have c2: "snd (checkcredit [] ?d ''1001'' ''Alice'' ''u9'' ''c1'' 3600001) = LinkExpired"
    using late [of "''c1''", THEN conjunct2, rule_format, of ?c "[]"] c o(2) by simp
  show ?thesis using g m1 c1 m2 c2 by simp
qed

text \<open>The claim as worded fails for a check after the hour: the answer is expired and
  the status leaves \<^verbatim>\<open>used\<close>.\<close>

theorem used_token_check_counterexample:
  "map mv_status (movieVerifications (tokenDb ''used'' ''published'')) = [''used'']
   \<and> snd (checkverify [] (tokenDb ''used'' ''published'') ''1001'' ''Alice'' ''u9'' ''t1''
            3600001) = LinkExpired
   \<and> map mv_status
       (movieVerifications
          (fst (checkverify [] (tokenDb ''used'' ''published'') ''1001'' ''Alice'' ''u9'' ''t1''
                  3600001))) = [''expired'']"
  by (simp add: checkverify_def getOrCreateUser_def tokenDb_def aliceDb_def alice_def
      emptyDb_def startsWith_def)

section \<open>Claiming a verified content token\<close>

lemma grantOrRenew_tables:
  "users (grantOrRenew d k m now) = users d"
  "movies (grantOrRenew d k m now) = movies d"
  "movieVerifications (grantOrRenew d k m now) = movieVerifications d"
  "creditTransactions (grantOrRenew d k m now) = creditTransactions d"
  by (simp_all add: grantOrRenew_def)

lemma filter_pair_upd:
  "filter (\<lambda>a. ma_userId a = k \<and> ma_movieId a = m)
     (map (\<lambda>a. if ma_userId a = k \<and> ma_movieId a = m then a\<lparr>unlockedAt := t\<rparr> else a) xs)
   = map (\<lambda>a. a\<lparr>unlockedAt := t\<rparr>) (filter (\<lambda>a. ma_userId a = k \<and> ma_movieId a = m) xs)"
  by (induction xs) auto

lemma filter_notP_upd:
  "(\<And>a. P (f a) = P a) \<Longrightarrow>
   filter (\<lambda>a. \<not> P a) (map (\<lambda>a. if P a then f a else a) xs) = filter (\<lambda>a. \<not> P a) xs"
  by (induction xs) auto

lemma grantOrRenew_access:
  "\<exists>a rest. filter (\<lambda>a. ma_userId a = k \<and> ma_movieId a = m)
               (movieAccess (grantOrRenew d k m now)) = a # rest
           \<and> unlockedAt a = now"
proof (cases "filter (\<lambda>a. ma_userId a = k \<and> ma_movieId a = m) (movieAccess d)")
  case Nil
  then show ?thesis by (simp add: grantOrRenew_def)
next
  case (Cons a rest)
  then show ?thesis by (simp add: grantOrRenew_def filter_pair_upd)
qed

lemma grantOrRenew_others:
  "filter (\<lambda>a. \<not> (ma_userId a = k \<and> ma_movieId a = m)) (movieAccess (grantOrRenew d k m now))
     = filter (\<lambda>a. \<not> (ma_userId a = k \<and> ma_movieId a = m)) (movieAccess d)"
  using filter_notP_upd [of "\<lambda>a. ma_userId a = k \<and> ma_movieId a = m"
      "\<lambda>a. a\<lparr>unlockedAt := now\<rparr>" "movieAccess d"]
  by (simp add: grantOrRenew_def)

lemma checkverify_verified:
  assumes g: "getOrCreateUser admins d tg name newId = (d1, usr, isNew)"
    and v: "filter (\<lambda>x. mv_token x = token) (movieVerifications d) = v # vrest"
    and o: "mv_userId v = u_id usr"
    and s: "mv_status v = ''verified''"
    and m: "filter (\<lambda>x. m_id x = mv_movieId v) (movies d) = mv # mrest"
    and t: "now - mv_createdAt v \<le> 3600000"
  shows "checkverify admins d tg name newId token now =
           ((grantOrRenew d1 (u_id usr) (m_id mv) now)\<lparr>movieVerifications :=
               map (\<lambda>x. if mv_token x = token then x\<lparr>mv_status := ''used''\<rparr> else x)
                 (movieVerifications d)\<rparr>,
            Content mv False \<lparr>valid = True, av_hoursRemaining = 12, av_minutesRemaining = 0\<rparr>)"
  using g v o s m t getOrCreateUser_tables(1,5) [OF g]
  by (simp add: checkverify_def Let_def grantOrRenew_tables)

text \<open>
  Claim C2. A content token is verified, its owner has an account and the item
  exists. Two checks by the owner, one after the other and both within one hour of
  the token's creation. The first delivers the content and grants access exactly
  once: when the owner had no access row for the item, one row unlocked at the instant
  of the check is appended, otherwise the rows of that pair are set to that instant;
  either way the owner then holds a row for the item unlocked at that instant and
  valid for the following 12 hours, the rows of every other pair are as before, and
  the token is used. The second check answers already-used and writes nothing: the
  access table and the token table are what the first check left (the grant keeps the
  instant of the first check), the transaction log is untouched and every balance is
  what it was.
\<close>

theorem claim_twice:
  assumes u: "filter (\<lambda>x. username x = tg) (users d) = u # urest"
    and v: "filter (\<lambda>x. mv_token x = token) (movieVerifications d) = v # vrest"
    and o: "mv_userId v = u_id u"
    and s: "mv_status v = ''verified''"
    and m: "filter (\<lambda>x. m_id x = mv_movieId v) (movies d) = mv # mrest"
    and t1: "now1 - mv_createdAt v \<le> 3600000"
    and t2: "now2 - mv_createdAt v \<le> 3600000"
  shows "snd (checkverify admins d tg name newId token now1)
           = Content mv False
               \<lparr>valid = True, av_hoursRemaining = 12, av_minutesRemaining = 0\<rparr>
       \<and> movieAccess (fst (checkverify admins d tg name newId token now1))
           = (if filter (\<lambda>a. ma_userId a = u_id u \<and> ma_movieId a = m_id mv) (movieAccess d)
                 = []
              then movieAccess d @
                     [\<lparr>ma_userId = u_id u, ma_movieId = m_id mv, unlockedAt = now1\<rparr>]
              else map (\<lambda>a. if ma_userId a = u_id u \<and> ma_movieId a = m_id mv
                              then a\<lparr>unlockedAt := now1\<rparr> else a) (movieAccess d))
       \<and> (\<exists>a rest.
             filter (\<lambda>a. ma_userId a = u_id u \<and> ma_movieId a = m_id mv)
               (movieAccess (fst (checkverify admins d tg name newId token now1))) = a # rest
           \<and> unlockedAt a = now1
           \<and> (\<forall>later. valid (isAccessValid (unlockedAt a) later)
                        = (later - now1 < 12 * 3600000)))
       \<and> filter (\<lambda>a. \<not> (ma_userId a = u_id u \<and> ma_movieId a = m_id mv))
           (movieAccess (fst (checkverify admins d tg name newId token now1)))
           = filter (\<lambda>a. \<not> (ma_userId a = u_id u \<and> ma_movieId a = m_id mv)) (movieAccess d)
       \<and> filter (\<lambda>x. mv_token x = token)
           (movieVerifications (fst (checkverify admins d tg name newId token now1)))
           = map (\<lambda>x. x\<lparr>mv_status := ''used''\<rparr>) (v # vrest)
       \<and> snd (checkverify admins (fst (checkverify admins d tg name newId token now1))
                tg name2 newId2 token now2) = AlreadyUsed
       \<and> movieAccess (fst (checkverify admins
                 (fst (checkverify admins d tg name newId token now1))
                 tg name2 newId2 token now2))
           = movieAccess (fst (checkverify admins d tg name newId token now1))
       \<and> movieVerifications (fst (checkverify admins
                 (fst (checkverify admins d tg name newId token now1))
                 tg name2 newId2 token now2))
           = movieVerifications (fst (checkverify admins d tg name newId token now1))
       \<and> creditTransactions (fst (checkverify admins
                 (fst (checkverify admins d tg name newId token now1))
                 tg name2 newId2 token now2))
           = creditTransactions d
       \<and> (\<forall>k b. balance d k = Some b \<longrightarrow>
             balance (fst (checkverify admins
                 (fst (checkverify admins d tg name newId token now1))
                 tg name2 newId2 token now2)) k = Some b)"
proof -
  obtain d1 usr u1 rest1 where
    g: "getOrCreateUser admins d tg name newId = (d1, usr, False)"
    and i: "u_id usr = u_id u"
    and u1: "filter (\<lambda>x. username x = tg) (users d1) = u1 # rest1" "u_id u1 = u_id u"
    using getOrCreateUser_existing [OF u] by blast
  note tb = getOrCreateUser_tables [OF g]
  define da where "da = fst (checkverify admins d tg name newId token now1)"
  have r1: "checkverify admins d tg name newId token now1 =
           ((grantOrRenew d1 (u_id usr) (m_id mv) now1)\<lparr>movieVerifications :=
               map (\<lambda>x. if mv_token x = token then x\<lparr>mv_status := ''used''\<rparr> else x)
                 (movieVerifications d)\<rparr>,
            Content mv False \<lparr>valid = True, av_hoursRemaining = 12, av_minutesRemaining = 0\<rparr>)"
    using checkverify_verified [OF g v _ s m t1] o i by simp
  have a0: "movieAccess da = movieAccess (grantOrRenew d1 (u_id u) (m_id mv) now1)"
    using i by (simp add: da_def r1)
  have a1: "movieAccess da
           = (if filter (\<lambda>a. ma_userId a = u_id u \<and> ma_movieId a = m_id mv) (movieAccess d)
                 = []
              then movieAccess d @
                     [\<lparr>ma_userId = u_id u, ma_movieId = m_id mv, unlockedAt = now1\<rparr>]
              else map (\<lambda>a. if ma_userId a = u_id u \<and> ma_movieId a = m_id mv
                              then a\<lparr>unlockedAt := now1\<rparr> else a) (movieAccess d))"
    using tb(4) by (simp add: a0 grantOrRenew_def)
  obtain a rest where
    ar: "filter (\<lambda>a. ma_userId a = u_id u \<and> ma_movieId a = m_id mv) (movieAccess da) = a # rest"
        "unlockedAt a = now1"
    using grantOrRenew_access [of "u_id u" "m_id mv" d1 now1] a0 by auto
  have w: "\<forall>later. valid (isAccessValid (unlockedAt a) later) = (later - now1 < 12 * 3600000)"
    using ar(2) by (simp add: isAccessValid_def Let_def)
  have a2: "\<exists>a rest.
             filter (\<lambda>a. ma_userId a = u_id u \<and> ma_movieId a = m_id mv) (movieAccess da)
               = a # rest
           \<and> unlockedAt a = now1
           \<and> (\<forall>later. valid (isAccessValid (unlockedAt a) later)
                        = (later - now1 < 12 * 3600000))"
    using ar w by blast
  have a3: "filter (\<lambda>a. \<not> (ma_userId a = u_id u \<and> ma_movieId a = m_id mv)) (movieAccess da)
           = filter (\<lambda>a. \<not> (ma_userId a = u_id u \<and> ma_movieId a = m_id mv)) (movieAccess d)"
    using grantOrRenew_others [of "u_id u" "m_id mv" d1 now1] tb(4) by (simp add: a0)
  have ua: "users da = users d1"
    by (simp add: da_def r1 grantOrRenew_tables)
  have ca: "creditTransactions da = creditTransactions d"
    using tb(3) by (simp add: da_def r1 grantOrRenew_tables)
  have va: "filter (\<lambda>x. mv_token x = token) (movieVerifications da)
              = v\<lparr>mv_status := ''used''\<rparr> # map (\<lambda>x. x\<lparr>mv_status := ''used''\<rparr>) vrest"
    using v by (simp add: da_def r1 filter_token_upd)
  have u1a: "filter (\<lambda>x. username x = tg) (users da) = u1 # rest1"
    using u1(1) ua by simp
  obtain d2 usr2 where
    g2: "getOrCreateUser admins da tg name2 newId2 = (d2, usr2, False)"
    and i2': "u_id usr2 = u_id u1"
    using getOrCreateUser_existing [OF u1a] by blast
  have i2: "u_id usr2 = u_id u" using i2' u1(2) by simp
  note tb2 = getOrCreateUser_tables [OF g2]
  have r2: "checkverify admins da tg name2 newId2 token now2 = (d2, AlreadyUsed)"
    using checkverify_used [OF g2 va, of now2] o i2 t2 by simp
  have b1: "\<And>k b. balance d k = Some b \<Longrightarrow> balance d1 k = Some b"
    using getOrCreateUser_balance [OF g] .
  have b2: "\<And>k b. balance da k = Some b \<Longrightarrow> balance d2 k = Some b"
    using getOrCreateUser_balance [OF g2] .
  have bb: "\<And>k. balance da k = balance d1 k"
    using ua by (simp add: balance_def)
  have b: "\<forall>k b. balance d k = Some b \<longrightarrow> balance d2 k = Some b"
    using b1 b2 bb by simp
  have c1: "snd (checkverify admins d tg name newId token now1)
           = Content mv False
               \<lparr>valid = True, av_hoursRemaining = 12, av_minutesRemaining = 0\<rparr>"
    by (simp add: r1)
  have c6: "snd (checkverify admins da tg name2 newId2 token now2) = AlreadyUsed"
    by (simp add: r2)
  have c7: "movieAccess (fst (checkverify admins da tg name2 newId2 token now2))
              = movieAccess da"
    using tb2(4) by (simp add: r2)
  have c8: "movieVerifications (fst (checkverify admins da tg name2 newId2 token now2))
              = movieVerifications da"
    using tb2(5) by (simp add: r2)
  have c9: "creditTransactions (fst (checkverify admins da tg name2 newId2 token now2))
              = creditTransactions d"
    using tb2(3) ca by (simp add: r2)
  have c10: "\<forall>k b. balance d k = Some b \<longrightarrow>
               balance (fst (checkverify admins da tg name2 newId2 token now2)) k = Some b"
    using b by (simp add: r2)
  have va': "filter (\<lambda>x. mv_token x = token) (movieVerifications da)
              = map (\<lambda>x. x\<lparr>mv_status := ''used''\<rparr>) (v # vrest)"
    using va by simp
  show ?thesis
    unfolding da_def [symmetric]
    using c1 a1 a2 a3 va' c6 c7 c8 c9 c10 by blast
qed

text \<open>Alice claims her verified token twice: once with no access row for the item,
  once with a row that ran out (renewal), next to a row for another item.\<close>

theorem claim_twice_witness:
  "filter (\<lambda>x. username x = ''1001'') (users (tokenDb ''verified'' ''published'')) = [alice]
   \<and> (1000::int) - 0 \<le> 3600000 \<and> (2000::int) - 0 \<le> 3600000
   \<and> movieAccess (tokenDb ''verified'' ''published'') = []
   \<and> snd (checkverify [] (tokenDb ''verified'' ''published'') ''1001'' ''Alice'' ''u9'' ''t1''
            1000)
       = Content film False \<lparr>valid = True, av_hoursRemaining = 12, av_minutesRemaining = 0\<rparr>
   \<and> movieAccess (fst (checkverify [] (tokenDb ''verified'' ''published'') ''1001'' ''Alice''
                          ''u9'' ''t1'' 1000))
       = [\<lparr>ma_userId = ''u1'', ma_movieId = ''m1'', unlockedAt = 1000\<rparr>]
   \<and> snd (checkverify []
            (fst (checkverify [] (tokenDb ''verified'' ''published'') ''1001'' ''Alice'' ''u9''
                    ''t1'' 1000))
            ''1001'' ''Alice'' ''u8'' ''t1'' 2000) = AlreadyUsed
   \<and> movieAccess (fst (checkverify []
            (fst (checkverify [] (tokenDb ''verified'' ''published'') ''1001'' ''Alice'' ''u9''
                    ''t1'' 1000))
            ''1001'' ''Alice'' ''u8'' ''t1'' 2000))
       = [\<lparr>ma_userId = ''u1'', ma_movieId = ''m1'', unlockedAt = 1000\<rparr>]
   \<and> filter (\<lambda>x. username x = ''1001'') (users renewDb) = [alice]
   \<and> (90001000::int) - 90000000 \<le> 3600000 \<and> (90002000::int) - 90000000 \<le> 3600000
   \<and> movieAccess renewDb
       = [\<lparr>ma_userId = ''u1'', ma_movieId = ''m1'', unlockedAt = 0\<rparr>,
          \<lparr>ma_userId = ''u1'', ma_movieId = ''m2'', unlockedAt = 0\<rparr>]
   \<and> \<not> valid (isAccessValid 0 90001000)
   \<and> snd (checkverify [] renewDb ''1001'' ''Alice'' ''u9'' ''t1'' 90001000)
       = Content film False \<lparr>valid = True, av_hoursRemaining = 12, av_minutesRemaining = 0\<rparr>
   \<and> movieAccess (fst (checkverify [] renewDb ''1001'' ''Alice'' ''u9'' ''t1'' 90001000))
       = [\<lparr>ma_userId = ''u1'', ma_movieId = ''m1'', unlockedAt = 90001000\<rparr>,
          \<lparr>ma_userId = ''u1'', ma_movieId = ''m2'', unlockedAt = 0\<rparr>]
   \<and> snd (checkverify []
            (fst (checkverify [] renewDb ''1001'' ''Alice'' ''u9'' ''t1'' 90001000))
            ''1001'' ''Alice'' ''u8'' ''t1'' 90002000) = AlreadyUsed
   \<and> movieAccess (fst (checkverify []
            (fst (checkverify [] renewDb ''1001'' ''Alice'' ''u9'' ''t1'' 90001000))
            ''1001'' ''Alice'' ''u8'' ''t1'' 90002000))
       = [\<lparr>ma_userId = ''u1'', ma_movieId = ''m1'', unlockedAt = 90001000\<rparr>,
          \<lparr>ma_userId = ''u1'', ma_movieId = ''m2'', unlockedAt = 0\<rparr>]"
proof -
  let ?d = "tokenDb ''verified'' ''published''"
  let ?v = "\<lparr>mv_userId = ''u1'', mv_movieId = ''m1'', mv_token = ''t1'',
             mv_status = ''verified'', mv_createdAt = 0\<rparr>"
  let ?w = "\<lparr>mv_userId = ''u1'', mv_movieId = ''m1'', mv_token = ''t1'',
             mv_status = ''verified'', mv_createdAt = 90000000\<rparr>"
  have f: "film\<lparr>m_status := ''published''\<rparr> = film" "m_id film = ''m1''"
    by (simp_all add: film_def)
  have i: "u_id alice = ''u1''" by (simp add: alice_def)
  have u: "filter (\<lambda>x. username x = ''1001'') (users ?d) = alice # []"
    by (simp add: tokenDb_def aliceDb_def alice_def)
  have v: "filter (\<lambda>x. mv_token x = ''t1'') (movieVerifications ?d) = ?v # []"
    by (simp add: tokenDb_def)
  have o: "mv_userId ?v = u_id alice" by (simp add: alice_def)
  have s: "mv_status ?v = ''verified''" by simp
  have m: "filter (\<lambda>x. m_id x = mv_movieId ?v) (movies ?d) = film # []"
    by (simp add: tokenDb_def film_def)
  have t1: "1000 - mv_createdAt ?v \<le> 3600000" and t2: "2000 - mv_createdAt ?v \<le> 3600000"
    by simp_all
  have e: "movieAccess ?d = []"
    by (simp add: tokenDb_def aliceDb_def emptyDb_def)
  note A = claim_twice [OF u v o s m t1 t2, of "[]" "''Alice''" "''u9''" "''Alice''" "''u8''"]
  have A1: "snd (checkverify [] ?d ''1001'' ''Alice'' ''u9'' ''t1'' 1000)
       = Content film False \<lparr>valid = True, av_hoursRemaining = 12, av_minutesRemaining = 0\<rparr>"
    using A [THEN conjunct1] .
  have A2: "movieAccess (fst (checkverify [] ?d ''1001'' ''Alice'' ''u9'' ''t1'' 1000))
       = [\<lparr>ma_userId = ''u1'', ma_movieId = ''m1'', unlockedAt = 1000\<rparr>]"
    using A [THEN conjunct2, THEN conjunct1] by (simp add: e i f)
  have A3: "snd (checkverify []
            (fst (checkverify [] ?d ''1001'' ''Alice'' ''u9'' ''t1'' 1000))
            ''1001'' ''Alice'' ''u8'' ''t1'' 2000) = AlreadyUsed"
    using A [THEN conjunct2, THEN conjunct2, THEN conjunct2, THEN conjunct2, THEN conjunct2,
             THEN conjunct1] .
  have A4: "movieAccess (fst (checkverify []
            (fst (checkverify [] ?d ''1001'' ''Alice'' ''u9'' ''t1'' 1000))
            ''1001'' ''Alice'' ''u8'' ''t1'' 2000))
       = [\<lparr>ma_userId = ''u1'', ma_movieId = ''m1'', unlockedAt = 1000\<rparr>]"
    using A [THEN conjunct2, THEN conjunct2, THEN conjunct2, THEN conjunct2, THEN conjunct2,
             THEN conjunct2, THEN conjunct1] A2 by simp
  have ur: "filter (\<lambda>x. username x = ''1001'') (users renewDb) = alice # []"
    by (simp add: renewDb_def aliceDb_def alice_def)
  have vr: "filter (\<lambda>x. mv_token x = ''t1'') (movieVerifications renewDb) = ?w # []"
    by (simp add: renewDb_def)
  have or: "mv_userId ?w = u_id alice" by (simp add: alice_def)
  have sr: "mv_status ?w = ''verified''" by simp
  have mr: "filter (\<lambda>x. m_id x = mv_movieId ?w) (movies renewDb) = film # []"
    by (simp add: renewDb_def film_def)
  have tr1: "90001000 - mv_createdAt ?w \<le> 3600000"
    and tr2: "90002000 - mv_createdAt ?w \<le> 3600000"
    by simp_all
  have er: "movieAccess renewDb
       = [\<lparr>ma_userId = ''u1'', ma_movieId = ''m1'', unlockedAt = 0\<rparr>,
          \<lparr>ma_userId = ''u1'', ma_movieId = ''m2'', unlockedAt = 0\<rparr>]"
    by (simp add: renewDb_def)
  have x: "\<not> valid (isAccessValid 0 90001000)"
    by (simp add: isAccessValid_def Let_def)
  note B = claim_twice [OF ur vr or sr mr tr1 tr2, of "[]" "''Alice''" "''u9''" "''Alice''"
      "''u8''"]
  have B1: "snd (checkverify [] renewDb ''1001'' ''Alice'' ''u9'' ''t1'' 90001000)
       = Content film False \<lparr>valid = True, av_hoursRemaining = 12, av_minutesRemaining = 0\<rparr>"
    using B [THEN conjunct1] .
  have B2: "movieAccess (fst (checkverify [] renewDb ''1001'' ''Alice'' ''u9'' ''t1'' 90001000))
       = [\<lparr>ma_userId = ''u1'', ma_movieId = ''m1'', unlockedAt = 90001000\<rparr>,
          \<lparr>ma_userId = ''u1'', ma_movieId = ''m2'', unlockedAt = 0\<rparr>]"
    using B [THEN conjunct2, THEN conjunct1] by (simp add: er i f)
  have B3: "snd (checkverify []
            (fst (checkverify [] renewDb ''1001'' ''Alice'' ''u9'' ''t1'' 90001000))
            ''1001'' ''Alice'' ''u8'' ''t1'' 90002000) = AlreadyUsed"
    using B [THEN conjunct2, THEN conjunct2, THEN conjunct2, THEN conjunct2, THEN conjunct2,
             THEN conjunct1] .
  have B4: "movieAccess (fst (checkverify []
            (fst (checkverify [] renewDb ''1001'' ''Alice'' ''u9'' ''t1'' 90001000))
            ''1001'' ''Alice'' ''u8'' ''t1'' 90002000))
       = [\<lparr>ma_userId = ''u1'', ma_movieId = ''m1'', unlockedAt = 90001000\<rparr>,
          \<lparr>ma_userId = ''u1'', ma_movieId = ''m2'', unlockedAt = 0\<rparr>]"
    using B [THEN conjunct2, THEN conjunct2, THEN conjunct2, THEN conjunct2, THEN conjunct2,
             THEN conjunct2, THEN conjunct1] B2 by simp
  show ?thesis
    using u e A1 A2 A3 A4 ur er x B1 B2 B3 B4 by simp
qed

section \<open>Claiming after the item was unpublished\<close>

lemma getlink_not_available:
  assumes g: "getOrCreateUser admins d tg name newId = (d1, usr, isNew)"
    and na: "\<not> isAdmin admins d1 tg"
    and m: "filter (\<lambda>x. startsWith (m_id x) movieIdPrefix) (movies d) = mv # mrest"
    and p: "m_status mv \<noteq> ''published''"
    and a: "list_all (\<lambda>a. \<not> valid (isAccessValid (unlockedAt a) now))
              (filter (\<lambda>a. ma_userId a = u_id usr \<and> ma_movieId a = m_id mv) (movieAccess d))"
  shows "getlink admins d tg name newId movieIdPrefix verificationToken shortUrl now
           = (d1, NotAvailable)"
  using g na m p a getOrCreateUser_tables(1,4) [OF g]
  by (auto simp add: getlink_def Let_def split: list.splits)

text \<open>
  Claim C10. A verified content token whose item is no longer published, checked by
  its owner within one hour of the token's creation: the content is delivered and the
  owner holds an access row for the item unlocked at the instant of the check, valid
  for the following 12 hours. The publish status is tested on the request path only:
  a request for the same item by the same requester, not an admin and without valid
  access, is answered not-available.
\<close>

theorem claim_ignores_publish_status:
  assumes g: "getOrCreateUser admins d tg name newId = (d1, usr, isNew)"
    and v: "filter (\<lambda>x. mv_token x = token) (movieVerifications d) = v # vrest"
    and o: "mv_userId v = u_id usr"
    and s: "mv_status v = ''verified''"
    and m: "filter (\<lambda>x. m_id x = mv_movieId v) (movies d) = mv # mrest"
    and p: "m_status mv \<noteq> ''published''"
    and t: "now - mv_createdAt v \<le> 3600000"
  shows "snd (checkverify admins d tg name newId token now)
           = Content mv False
               \<lparr>valid = True, av_hoursRemaining = 12, av_minutesRemaining = 0\<rparr>
       \<and> (\<exists>a rest.
             filter (\<lambda>a. ma_userId a = u_id usr \<and> ma_movieId a = m_id mv)
               (movieAccess (fst (checkverify admins d tg name newId token now))) = a # rest
           \<and> unlockedAt a = now
           \<and> (\<forall>later. valid (isAccessValid (unlockedAt a) later)
                        = (later - now < 12 * 3600000)))
       \<and> (\<not> isAdmin admins d1 tg
            \<and> list_all (\<lambda>a. \<not> valid (isAccessValid (unlockedAt a) now))
                 (filter (\<lambda>a. ma_userId a = u_id usr \<and> ma_movieId a = m_id mv)
                    (movieAccess d))
            \<and> filter (\<lambda>x. startsWith (m_id x) movieIdPrefix) (movies d) = mv # mrest2
          \<longrightarrow> getlink admins d tg name newId movieIdPrefix verificationToken shortUrl now
                = (d1, NotAvailable))"
proof -
  have r: "checkverify admins d tg name newId token now =
           ((grantOrRenew d1 (u_id usr) (m_id mv) now)\<lparr>movieVerifications :=
               map (\<lambda>x. if mv_token x = token then x\<lparr>mv_status := ''used''\<rparr> else x)
                 (movieVerifications d)\<rparr>,
            Content mv False \<lparr>valid = True, av_hoursRemaining = 12, av_minutesRemaining = 0\<rparr>)"
    using checkverify_verified [OF g v o s m t] .
  obtain a rest where
    a: "filter (\<lambda>a. ma_userId a = u_id usr \<and> ma_movieId a = m_id mv)
          (movieAccess (grantOrRenew d1 (u_id usr) (m_id mv) now)) = a # rest"
       "unlockedAt a = now"
    using grantOrRenew_access by blast
  have w: "\<forall>later. valid (isAccessValid (unlockedAt a) later) = (later - now < 12 * 3600000)"
    using a(2) by (simp add: isAccessValid_def Let_def)
  have c2: "\<exists>a rest.
             filter (\<lambda>a. ma_userId a = u_id usr \<and> ma_movieId a = m_id mv)
               (movieAccess (fst (checkverify admins d tg name newId token now))) = a # rest
           \<and> unlockedAt a = now
           \<and> (\<forall>later. valid (isAccessValid (unlockedAt a) later)
                        = (later - now < 12 * 3600000))"
    using a w by (simp add: r)
  have c3: "\<not> isAdmin admins d1 tg
            \<and> list_all (\<lambda>a. \<not> valid (isAccessValid (unlockedAt a) now))
                 (filter (\<lambda>a. ma_userId a = u_id usr \<and> ma_movieId a = m_id mv)
                    (movieAccess d))
            \<and> filter (\<lambda>x. startsWith (m_id x) movieIdPrefix) (movies d) = mv # mrest2
          \<longrightarrow> getlink admins d tg name newId movieIdPrefix verificationToken shortUrl now
                = (d1, NotAvailable)"
    using getlink_not_available [OF g _ _ p] by blast
  show ?thesis using r c2 c3 by simp
qed

text \<open>Alice's verified token for a draft item: the request is refused, the claim
  delivers.\<close>

theorem claim_ignores_publish_status_witness:
  "getOrCreateUser [] (tokenDb ''verified'' ''draft'') ''1001'' ''Alice'' ''u9''
     = (tokenDb ''verified'' ''draft'', alice, False)
   \<and> m_status (film\<lparr>m_status := ''draft''\<rparr>) \<noteq> ''published''
   \<and> (1000::int) - 0 \<le> 3600000
   \<and> snd (checkverify [] (tokenDb ''verified'' ''draft'') ''1001'' ''Alice'' ''u9'' ''t1'' 1000)
       = Content (film\<lparr>m_status := ''draft''\<rparr>) False
           \<lparr>valid = True, av_hoursRemaining = 12, av_minutesRemaining = 0\<rparr>
   \<and> movieAccess (fst (checkverify [] (tokenDb ''verified'' ''draft'') ''1001'' ''Alice'' ''u9''
                          ''t1'' 1000))
       = [\<lparr>ma_userId = ''u1'', ma_movieId = ''m1'', unlockedAt = 1000\<rparr>]
   \<and> \<not> isAdmin [] (tokenDb ''verified'' ''draft'') ''1001''
   \<and> getlink [] (tokenDb ''verified'' ''draft'') ''1001'' ''Alice'' ''u9'' ''m1'' ''t2''
        (Some ''https://s.example/x'') 1000
       = (tokenDb ''verified'' ''draft'', NotAvailable)"
proof -
  let ?d = "tokenDb ''verified'' ''draft''"
  let ?v = "\<lparr>mv_userId = ''u1'', mv_movieId = ''m1'', mv_token = ''t1'',
             mv_status = ''verified'', mv_createdAt = 0\<rparr>"
  let ?m = "film\<lparr>m_status := ''draft''\<rparr>"
  have g: "getOrCreateUser [] ?d ''1001'' ''Alice'' ''u9'' = (?d, alice, False)"
    by (simp add: getOrCreateUser_def tokenDb_def aliceDb_def alice_def startsWith_def)
  have v: "filter (\<lambda>x. mv_token x = ''t1'') (movieVerifications ?d) = ?v # []"
    by (simp add: tokenDb_def)
  have o: "mv_userId ?v = u_id alice" by (simp add: alice_def)
  have s: "mv_status ?v = ''verified''" by simp
  have m: "filter (\<lambda>x. m_id x = mv_movieId ?v) (movies ?d) = ?m # []"
    by (simp add: tokenDb_def film_def)
  have p: "m_status ?m \<noteq> ''published''" by simp
  have t: "1000 - mv_createdAt ?v \<le> 3600000" by simp
  have na: "\<not> isAdmin [] ?d ''1001''"
    by (simp add: isAdmin_def tokenDb_def aliceDb_def alice_def)
  have ac: "movieAccess ?d = []" by (simp add: tokenDb_def aliceDb_def emptyDb_def)
  have m2: "filter (\<lambda>x. startsWith (m_id x) ''m1'') (movies ?d) = ?m # []"
    by (simp add: tokenDb_def film_def startsWith_def)
  have e: "movieAccess (fst (checkverify [] ?d ''1001'' ''Alice'' ''u9'' ''t1'' 1000))
             = [\<lparr>ma_userId = ''u1'', ma_movieId = ''m1'', unlockedAt = 1000\<rparr>]"
    using ac g by (simp add: checkverify_verified [OF g v o s m t] grantOrRenew_def
        alice_def film_def)
  show ?thesis
    using g p na ac m2 e
      claim_ignores_publish_status [OF g v o s m p t, of "''m1''" "[]" "''t2''"
        "Some ''https://s.example/x''"]
    by simp
qed

section \<open>Requesting content and credits\<close>

lemma getlink_keeps_users:
  assumes g: "getOrCreateUser admins d tg name newId = (d1, usr, isNew)"
  shows "users (fst (getlink admins d tg name newId movieIdPrefix verificationToken shortUrl
                       now)) = users d1
       \<and> creditTransactions (fst (getlink admins d tg name newId movieIdPrefix
                                      verificationToken shortUrl now))
           = creditTransactions d"
  using getOrCreateUser_tables(3) [OF g]
  by (simp add: getlink_def g Let_def grantOrRenew_tables split: list.splits option.splits)

lemma getlink_no_content:
  assumes g: "getOrCreateUser admins d tg name newId = (d1, usr, isNew)"
    and na: "\<not> isAdmin admins d1 tg"
    and np: "\<not> isPremiumUser d1 (u_id usr) now"
    and nv: "list_all (\<lambda>a. \<not> valid (isAccessValid (unlockedAt a) now))
               (filter (\<lambda>a. ma_userId a = u_id usr) (movieAccess d))"
  shows "snd (getlink admins d tg name newId movieIdPrefix verificationToken shortUrl now)
           \<noteq> Content m b v
       \<and> snd (getlink admins d tg name newId movieIdPrefix verificationToken shortUrl now)
           \<noteq> PremiumContent m v"
proof -
  have a: "\<And>mid. list_all (\<lambda>a. \<not> valid (isAccessValid (unlockedAt a) now))
               (filter (\<lambda>a. ma_userId a = u_id usr \<and> ma_movieId a = mid) (movieAccess d1))"
    using nv getOrCreateUser_tables(4) [OF g] by (simp add: list_all_iff)
  have b: "\<And>mid a rest. filter (\<lambda>a. ma_userId a = u_id usr \<and> ma_movieId a = mid)
               (movieAccess d1) = a # rest \<Longrightarrow> \<not> valid (isAccessValid (unlockedAt a) now)"
  proof -
    fix mid a rest
    assume e: "filter (\<lambda>a. ma_userId a = u_id usr \<and> ma_movieId a = mid) (movieAccess d1)
                 = a # rest"
    show "\<not> valid (isAccessValid (unlockedAt a) now)"
      using a [of mid] by (simp add: e)
  qed
  show ?thesis
    using na np b
    by (auto simp add: getlink_def g Let_def split: list.splits option.splits)
qed

lemma getlink_needs_verification:
  assumes g: "getOrCreateUser admins d tg name newId = (d1, usr, isNew)"
    and na: "\<not> isAdmin admins d1 tg"
    and np: "\<not> isPremiumUser d1 (u_id usr) now"
    and nv: "list_all (\<lambda>a. \<not> valid (isAccessValid (unlockedAt a) now))
               (filter (\<lambda>a. ma_userId a = u_id usr) (movieAccess d))"
    and m: "filter (\<lambda>x. startsWith (m_id x) movieIdPrefix) (movies d) = mv # mrest"
    and p: "m_status mv = ''published''"
    and c: "list_ex (\<lambda>a. assetType a \<in> set fileTypes)
              (filter (\<lambda>a. a_movieId a = m_id mv) (movieAssets d))
            \<or> list_ex (\<lambda>a. assetType a = ''link'')
                 (filter (\<lambda>a. a_movieId a = m_id mv) (movieAssets d))
            \<or> links mv \<noteq> []"
  shows "getlink admins d tg name newId movieIdPrefix verificationToken shortUrl now
           = (d1\<lparr>movieVerifications := movieVerifications d @
                   [\<lparr>mv_userId = u_id usr, mv_movieId = m_id mv,
                     mv_token = verificationToken, mv_status = ''pending'',
                     mv_createdAt = now\<rparr>]\<rparr>,
              (case shortUrl of
                 None \<Rightarrow> LinkError
               | Some url \<Rightarrow>
                   VerifyPrompt verificationToken url
                     (filter (\<lambda>a. ma_userId a = u_id usr \<and> ma_movieId a = m_id mv)
                        (movieAccess d) \<noteq> [])))"
proof -
  note t = getOrCreateUser_tables [OF g]
  have a: "list_all (\<lambda>a. \<not> valid (isAccessValid (unlockedAt a) now))
               (filter (\<lambda>a. ma_userId a = u_id usr \<and> ma_movieId a = m_id mv) (movieAccess d))"
    using nv by (simp add: list_all_iff)
  have b: "\<not> valid (case filter (\<lambda>a. ma_userId a = u_id usr \<and> ma_movieId a = m_id mv)
                          (movieAccess d) of
                     a # x \<Rightarrow> isAccessValid (unlockedAt a) now
                   | [] \<Rightarrow> \<lparr>valid = False, av_hoursRemaining = 0, av_minutesRemaining = 0\<rparr>)"
    using a by (cases "filter (\<lambda>a. ma_userId a = u_id usr \<and> ma_movieId a = m_id mv)
                          (movieAccess d)") simp_all
  show ?thesis
    using na np m p c b t
    by (simp add: getlink_def g Let_def split: option.splits)
qed

text \<open>No request writes a balance or the transaction log.\<close>

lemma getlink_never_writes_credits:
  assumes g: "getOrCreateUser admins d tg name newId = (d1, usr, isNew)"
  shows "creditTransactions
           (fst (getlink admins d tg name newId movieIdPrefix verificationToken shortUrl now))
           = creditTransactions d
       \<and> (\<forall>k b. balance d k = Some b \<longrightarrow>
             balance (fst (getlink admins d tg name newId movieIdPrefix verificationToken
                             shortUrl now)) k = Some b)"
proof -
  note k = getlink_keeps_users [OF g, of movieIdPrefix verificationToken shortUrl now]
  have c1: "creditTransactions
           (fst (getlink admins d tg name newId movieIdPrefix verificationToken shortUrl now))
           = creditTransactions d"
    using k by simp
  have c2: "\<forall>k b. balance d k = Some b \<longrightarrow>
             balance (fst (getlink admins d tg name newId movieIdPrefix verificationToken
                             shortUrl now)) k = Some b"
    using k getOrCreateUser_balance [OF g] by (simp add: balance_def)
  show ?thesis using c1 c2 by blast
qed

text \<open>
  Claim C3, against the source. The claim has \<^verbatim>\<open>/getlink_\<close> look at the balance and
  spend one credit to deliver content, and the bot's own texts price an item at one
  credit. The handler does neither. Alice, who is not an admin, has no premium and no
  grant, holds 2 credits and asks for a published item that has a link: the handler
  mints a pending token and answers with the verification prompt, her balance is
  still 2 and the transaction log is empty. \<open>spendCredit\<close> on the same store would
  succeed, log the entry and leave her 1 credit; no handler calls it.
\<close>

theorem getlink_charges_nothing:
  "balance shopDb ''u1'' = Some 2
   \<and> getlink [] shopDb ''1001'' ''Alice'' ''u9'' ''m1'' ''t2'' (Some ''https://s.example/x'') 1000
       = (shopDb\<lparr>movieVerifications :=
                   [\<lparr>mv_userId = ''u1'', mv_movieId = ''m1'', mv_token = ''t2'',
                     mv_status = ''pending'', mv_createdAt = 1000\<rparr>]\<rparr>,
          VerifyPrompt ''t2'' ''https://s.example/x'' False)
   \<and> balance (fst (getlink [] shopDb ''1001'' ''Alice'' ''u9'' ''m1'' ''t2''
                      (Some ''https://s.example/x'') 1000)) ''u1'' = Some 2
   \<and> creditTransactions (fst (getlink [] shopDb ''1001'' ''Alice'' ''u9'' ''m1'' ''t2''
                                 (Some ''https://s.example/x'') 1000)) = []
   \<and> spendCredit shopDb ''u1''
       = (shopDb\<lparr>creditTransactions :=
                   [\<lparr>ct_userId = ''u1'', amount = - 1, reason = ''link_access''\<rparr>],
                 users := [alice\<lparr>credits := 1\<rparr>]\<rparr>, True, 1)"
  by (simp add: getlink_def getOrCreateUser_def isAdmin_def isPremiumUser_def balance_def
      spendCredit_def shopDb_def aliceDb_def alice_def film_def emptyDb_def startsWith_def
      Let_def)

section \<open>Premium and its expiry\<close>

lemma removePremium_tables:
  "movies (removePremium d k) = movies d"
  "movieAssets (removePremium d k) = movieAssets d"
  "creditTransactions (removePremium d k) = creditTransactions d"
  "movieAccess (removePremium d k) = movieAccess d"
  "movieVerifications (removePremium d k) = movieVerifications d"
  "creditVerifications (removePremium d k) = creditVerifications d"
  "referrals (removePremium d k) = referrals d"
  by (simp_all add: removePremium_def)

lemma removePremium_getOrCreateUser:
  "getOrCreateUser admins (removePremium d k) tg name newId =
     (case getOrCreateUser admins d tg name newId of
        (d1, usr, n) \<Rightarrow>
          (removePremium d1 k,
           (if u_id usr = k then usr\<lparr>isPremium := False, premiumExpiresAt := None\<rparr> else usr),
           n))"
proof (cases "filter (\<lambda>x. username x = tg) (users d)")
  case Nil
  then have "filter (\<lambda>x. username x = tg) (users (removePremium d k)) = []"
    by (simp add: removePremium_def filter_map_preserved)
  with Nil show ?thesis
    by (simp add: getOrCreateUser_def Let_def removePremium_def)
next
  case (Cons e rest)
  then have "filter (\<lambda>x. username x = tg) (users (removePremium d k))
               = map (\<lambda>x. if u_id x = k
                           then x\<lparr>isPremium := False, premiumExpiresAt := None\<rparr> else x)
                   (e # rest)"
    by (simp add: removePremium_def filter_map_preserved)
  with Cons show ?thesis
    by (auto simp add: getOrCreateUser_def removePremium_def)
qed

lemma removePremium_isAdmin: "isAdmin admins (removePremium d k) tg = isAdmin admins d tg"
proof -
  have "filter (\<lambda>x. username x = tg) (users (removePremium d k))
          = map (\<lambda>x. if u_id x = k
                      then x\<lparr>isPremium := False, premiumExpiresAt := None\<rparr> else x)
              (filter (\<lambda>x. username x = tg) (users d))"
    by (simp add: removePremium_def filter_map_preserved)
  then show ?thesis
    by (auto simp add: isAdmin_def split: list.splits)
qed

lemma removePremium_isPremiumUser:
  "isPremiumUser (removePremium d k) j now = (if j = k then False else isPremiumUser d j now)"
  by (auto simp add: isPremiumUser_def removePremium_def filter_upd_same filter_upd_other
      split: list.splits)

lemma getOrCreateUser_isPremiumUser:
  assumes "getOrCreateUser admins d tg name newId = (d1, usr, isNew)"
  shows "isPremiumUser d1 k now = isPremiumUser d k now"
  using assms
  by (auto simp add: getOrCreateUser_def isPremiumUser_def Let_def filter_map_preserved
      split: list.splits if_splits)

lemma removePremium_grantOrRenew:
  "grantOrRenew (removePremium d k) a m now = removePremium (grantOrRenew d a m now) k"
  by (simp add: grantOrRenew_def removePremium_def)

lemma removePremium_mint:
  "(removePremium d k)\<lparr>movieVerifications := x\<rparr> = removePremium (d\<lparr>movieVerifications := x\<rparr>) k"
  "(removePremium d k)\<lparr>creditVerifications := y\<rparr> = removePremium (d\<lparr>creditVerifications := y\<rparr>) k"
  by (simp_all add: removePremium_def)

lemma getlink_removePremium:
  assumes "\<not> isPremiumUser d k now"
  shows "getlink admins (removePremium d k) tg name newId movieIdPrefix verificationToken
           shortUrl now
         = (removePremium
              (fst (getlink admins d tg name newId movieIdPrefix verificationToken shortUrl
                      now)) k,
            snd (getlink admins d tg name newId movieIdPrefix verificationToken shortUrl now))"
proof (cases "getOrCreateUser admins d tg name newId")
  case (fields d1 usr isNew)
  define usr' where
    "usr' = (if u_id usr = k then usr\<lparr>isPremium := False, premiumExpiresAt := None\<rparr> else usr)"
  have g': "getOrCreateUser admins (removePremium d k) tg name newId
              = (removePremium d1 k, usr', isNew)"
    by (simp add: removePremium_getOrCreateUser fields usr'_def)
  have i: "u_id usr' = u_id usr" by (simp add: usr'_def)
  have p: "\<not> isPremiumUser d1 k now"
    using assms getOrCreateUser_isPremiumUser [OF fields] by simp
  have q: "isPremiumUser (removePremium d1 k) (u_id usr) now = isPremiumUser d1 (u_id usr) now"
    using p by (cases "u_id usr = k") (simp_all add: removePremium_isPremiumUser)
  show ?thesis
    by (simp add: getlink_def g' fields i q removePremium_tables
        removePremium_isAdmin removePremium_grantOrRenew removePremium_mint Let_def
        split: list.splits option.splits)
qed

lemma removePremium_canEarnCredits:
  "canEarnCredits (removePremium d k) j now
     = (removePremium (fst (canEarnCredits d j now)) k, snd (canEarnCredits d j now))"
proof -
  have f: "filter (\<lambda>x. u_id x = j) (users (removePremium d k))
          = map (\<lambda>x. if u_id x = k
                      then x\<lparr>isPremium := False, premiumExpiresAt := None\<rparr> else x)
              (filter (\<lambda>x. u_id x = j) (users d))"
    by (simp add: removePremium_def filter_map_preserved)
  show ?thesis
  proof (cases "filter (\<lambda>x. u_id x = j) (users d)")
    case Nil
    with f show ?thesis by (simp add: canEarnCredits_def)
  next
    case (Cons u rest)
    with f show ?thesis
      by (auto simp add: canEarnCredits_def Let_def removePremium_def split: option.splits)
  qed
qed

lemma earnCreditsHandler_removePremium:
  "earnCreditsHandler admins (removePremium d k) tg name newId verificationToken shortUrl now
     = (removePremium
          (fst (earnCreditsHandler admins d tg name newId verificationToken shortUrl now)) k,
        snd (earnCreditsHandler admins d tg name newId verificationToken shortUrl now))"
proof (cases "getOrCreateUser admins d tg name newId")
  case (fields d1 usr isNew)
  define usr' where
    "usr' = (if u_id usr = k then usr\<lparr>isPremium := False, premiumExpiresAt := None\<rparr> else usr)"
  have g': "getOrCreateUser admins (removePremium d k) tg name newId
              = (removePremium d1 k, usr', isNew)"
    by (simp add: removePremium_getOrCreateUser fields usr'_def)
  have i: "u_id usr' = u_id usr" by (simp add: usr'_def)
  obtain d2 chk where c: "canEarnCredits d1 (u_id usr) now = (d2, chk)"
    by (cases "canEarnCredits d1 (u_id usr) now")
  have c': "canEarnCredits (removePremium d1 k) (u_id usr) now = (removePremium d2 k, chk)"
    using c by (simp add: removePremium_canEarnCredits)
  show ?thesis
    by (simp add: earnCreditsHandler_def g' fields i c c' removePremium_tables
        removePremium_mint Let_def split: option.splits)
qed

text \<open>
  Claim C7, as the source has it. For an account, \<open>isPremiumUser\<close> holds exactly when
  the premium flag is set and either no expiry is recorded or the expiry is not
  earlier than now. For an account whose expiry has passed it is false, and
  \<^verbatim>\<open>/getlink_\<close> and the \<^verbatim>\<open>/earncredits\<close> command then do exactly what they do for
  the same account with premium removed: same answer, same writes.
\<close>

theorem premium_expiry:
  "(\<forall>u. account d k = Some u \<longrightarrow>
       isPremiumUser d k now
         = (isPremium u \<and> (case premiumExpiresAt u of None \<Rightarrow> True | Some e \<Rightarrow> now \<le> e)))
   \<and> (\<forall>u e. account d k = Some u \<and> premiumExpiresAt u = Some e \<and> e < now \<longrightarrow>
         \<not> isPremiumUser d k now
       \<and> getlink admins (removePremium d k) tg name newId movieIdPrefix verificationToken
           shortUrl now
           = (removePremium
                (fst (getlink admins d tg name newId movieIdPrefix verificationToken shortUrl
                        now)) k,
              snd (getlink admins d tg name newId movieIdPrefix verificationToken shortUrl
                     now))
       \<and> earnCreditsHandler admins (removePremium d k) tg name newId verificationToken
           shortUrl now
           = (removePremium
                (fst (earnCreditsHandler admins d tg name newId verificationToken shortUrl
                        now)) k,
              snd (earnCreditsHandler admins d tg name newId verificationToken shortUrl
                     now)))"
proof -
  have a: "\<And>u. account d k = Some u \<Longrightarrow>
       isPremiumUser d k now
         = (isPremium u \<and> (case premiumExpiresAt u of None \<Rightarrow> True | Some e \<Rightarrow> now \<le> e))"
    by (auto simp add: account_def isPremiumUser_def split: list.splits option.splits)
  have b: "\<And>u e. account d k = Some u \<Longrightarrow> premiumExpiresAt u = Some e \<Longrightarrow> e < now \<Longrightarrow>
             \<not> isPremiumUser d k now"
    using a by simp
  show ?thesis
  proof (rule conjI)
    show "\<forall>u. account d k = Some u \<longrightarrow>
       isPremiumUser d k now
         = (isPremium u \<and> (case premiumExpiresAt u of None \<Rightarrow> True | Some e \<Rightarrow> now \<le> e))"
      using a by blast
  next
    show "\<forall>u e. account d k = Some u \<and> premiumExpiresAt u = Some e \<and> e < now \<longrightarrow>
         \<not> isPremiumUser d k now
       \<and> getlink admins (removePremium d k) tg name newId movieIdPrefix verificationToken
           shortUrl now
           = (removePremium
                (fst (getlink admins d tg name newId movieIdPrefix verificationToken shortUrl
                        now)) k,
              snd (getlink admins d tg name newId movieIdPrefix verificationToken shortUrl
                     now))
       \<and> earnCreditsHandler admins (removePremium d k) tg name newId verificationToken
           shortUrl now
           = (removePremium
                (fst (earnCreditsHandler admins d tg name newId verificationToken shortUrl
                        now)) k,
              snd (earnCreditsHandler admins d tg name newId verificationToken shortUrl
                     now))"
    proof (intro allI impI)
      fix u e
      assume h: "account d k = Some u \<and> premiumExpiresAt u = Some e \<and> e < now"
      then have np: "\<not> isPremiumUser d k now" using b by blast
      show "\<not> isPremiumUser d k now
       \<and> getlink admins (removePremium d k) tg name newId movieIdPrefix verificationToken
           shortUrl now
           = (removePremium
                (fst (getlink admins d tg name newId movieIdPrefix verificationToken shortUrl
                        now)) k,
              snd (getlink admins d tg name newId movieIdPrefix verificationToken shortUrl
                     now))
       \<and> earnCreditsHandler admins (removePremium d k) tg name newId verificationToken
           shortUrl now
           = (removePremium
                (fst (earnCreditsHandler admins d tg name newId verificationToken shortUrl
                        now)) k,
              snd (earnCreditsHandler admins d tg name newId verificationToken shortUrl
                     now))"
        using np getlink_removePremium [OF np] earnCreditsHandler_removePremium by simp
    qed
  qed
qed

text \<open>An account whose premium ran out at 500: active at 499, not at 1000, where a
  request is answered with the verification prompt and the command lets it earn.\<close>

theorem premium_expiry_witness:
  "account carolDb ''u1'' = Some carol \<and> premiumExpiresAt carol = Some 500
   \<and> (500::int) < 1000
   \<and> isPremiumUser carolDb ''u1'' 499 \<and> \<not> isPremiumUser carolDb ''u1'' 1000
   \<and> getlink [] (removePremium carolDb ''u1'') ''1001'' ''Alice'' ''u9'' ''m1'' ''t2''
        (Some ''https://s.example/x'') 1000
       = (removePremium
            (fst (getlink [] carolDb ''1001'' ''Alice'' ''u9'' ''m1'' ''t2''
                    (Some ''https://s.example/x'') 1000)) ''u1'',
          VerifyPrompt ''t2'' ''https://s.example/x'' False)
   \<and> snd (earnCreditsHandler [] carolDb ''1001'' ''Alice'' ''u9'' ''c2''
            (Some ''https://s.example/y'') 43200000)
       = EarnPrompt ''c2'' ''https://s.example/y''"
proof -
  have a: "account carolDb ''u1'' = Some carol"
    by (simp add: account_def carolDb_def carol_def alice_def)
  have p: "premiumExpiresAt carol = Some 500" "isPremium carol"
    by (simp_all add: carol_def)
  have r: "snd (getlink [] carolDb ''1001'' ''Alice'' ''u9'' ''m1'' ''t2''
                  (Some ''https://s.example/x'') 1000)
             = VerifyPrompt ''t2'' ''https://s.example/x'' False"
    by (simp add: getlink_def getOrCreateUser_def isAdmin_def isPremiumUser_def
        carolDb_def carol_def alice_def film_def emptyDb_def startsWith_def Let_def)
  have e: "snd (earnCreditsHandler [] carolDb ''1001'' ''Alice'' ''u9'' ''c2''
            (Some ''https://s.example/y'') 43200000)
       = EarnPrompt ''c2'' ''https://s.example/y''"
    by (simp add: earnCreditsHandler_def getOrCreateUser_def canEarnCredits_def
        carolDb_def carol_def alice_def emptyDb_def startsWith_def Let_def)
  note t1 = premium_expiry [of carolDb "''u1''" 499, THEN conjunct1, rule_format, OF a]
  note t2 = premium_expiry [of carolDb "''u1''" 1000 "[]" "''1001''" "''Alice''" "''u9''"
      "''m1''" "''t2''" "Some ''https://s.example/x''", THEN conjunct2, rule_format, of carol 500]
  show ?thesis using a p r e t1 t2 by simp
qed

text \<open>The claim as worded asks for an expiry strictly later than now: at the expiry
  instant itself the account is still premium.\<close>

theorem premium_expiry_counterexample:
  "account carolDb ''u1'' = Some carol \<and> isPremium carol
   \<and> premiumExpiresAt carol = Some 500
   \<and> \<not> (500::int) < 500
   \<and> isPremiumUser carolDb ''u1'' 500"
  by (simp add: account_def isPremiumUser_def carolDb_def carol_def alice_def)

text \<open>The menu button \<^verbatim>\<open>earncredits\<close> reads the stored flag, not \<open>isPremiumUser\<close>: it
  turns away an account whose premium has run out, and lets the same account earn once
  premium is removed.\<close>

lemma earncreditsCallback_reads_flag:
  "\<not> isPremiumUser carolDb ''u1'' 43200000
   \<and> snd (earncreditsCallback [] carolDb ''1001'' ''Alice'' ''u9'' ''c2''
            (Some ''https://s.example/y'') 43200000) = PremiumNoCredits
   \<and> snd (earncreditsCallback [] (removePremium carolDb ''u1'') ''1001'' ''Alice'' ''u9'' ''c2''
            (Some ''https://s.example/y'') 43200000)
       = EarnPrompt ''c2'' ''https://s.example/y''"
  by (simp add: earncreditsCallback_def getOrCreateUser_def canEarnCredits_def
      isPremiumUser_def removePremium_def carolDb_def carol_def alice_def emptyDb_def
      startsWith_def Let_def)


section \<open>Referrals\<close>

lemma registerReferral_distinct:
  assumes "distinct (map referredId (referrals d))"
  shows "distinct (map referredId (referrals (fst (registerReferral d a b))))"
  using assms
  by (auto simp add: registerReferral_def list_ex_iff)

lemma start_distinct:
  assumes "distinct (map referredId (referrals d))"
  shows "distinct (map referredId
           (referrals (fst (start admins d botActive tg firstName newId startParam))))"
proof (cases "getOrCreateUser admins d tg firstName newId")
  case (fields d1 usr isNew)
  have r: "referrals d1 = referrals d" using getOrCreateUser_tables(7) [OF fields] .
  then have d1: "distinct (map referredId (referrals d1))" using assms by simp
  show ?thesis
    using fields r assms registerReferral_distinct [OF d1]
    by (simp add: start_def Let_def split: list.splits)
qed

lemma step_distinct:
  assumes "distinct (map referredId (referrals d))"
  shows "distinct (map referredId (referrals (step admins d x)))"
proof (cases x)
  case (Earn userId now)
  then show ?thesis using assms
    by (auto simp add: earnCredits_def Let_def split: list.splits)
next
  case (Spend userId)
  then show ?thesis using assms
    by (auto simp add: spendCredit_def Let_def split: list.splits)
next
  case (CanEarn userId now)
  then show ?thesis using assms
    by (auto simp add: canEarnCredits_def Let_def split: list.splits)
next
  case (Start botActive tg firstName newId startParam)
  then show ?thesis using start_distinct [OF assms] by simp
next
  case (Reset tg target now)
  then show ?thesis using assms
    by (auto simp add: reset_def split: list.splits)
qed

lemma run_distinct:
  assumes "distinct (map referredId (referrals d))"
  shows "distinct (map referredId (referrals (run admins d ops)))"
  using assms
proof (induction ops arbitrary: d)
  case Nil
  then show ?case by simp
next
  case (Cons x xs)
  then show ?case using step_distinct by simp
qed

lemma registerReferral_violation:
  assumes "list_ex (\<lambda>r. referredId r = b) (referrals d)"
  shows "registerReferral d a b = (d, False)"
  using assms by (simp add: registerReferral_def)

lemma registerReferral_success:
  assumes "\<not> list_ex (\<lambda>r. referredId r = b) (referrals d)"
  shows "snd (registerReferral d a b)
       \<and> referrals (fst (registerReferral d a b))
           = referrals d @ [\<lparr>referrerId = a, referredId = b, creditsAwarded = 1\<rparr>]
       \<and> (\<forall>c. balance d a = Some c \<longrightarrow> balance (fst (registerReferral d a b)) a = Some (c + 1))
       \<and> (\<forall>k. k \<noteq> a \<longrightarrow> balance (fst (registerReferral d a b)) k = balance d k)
       \<and> creditTransactions (fst (registerReferral d a b)) = creditTransactions d"
  using assms
  by (auto simp add: registerReferral_def balance_def filter_upd_same filter_upd_other
      split: list.splits)

lemma start_referral:
  assumes "filter (\<lambda>x. username x = tg) (users d) = []"
    and "rtg \<noteq> tg"
    and "filter (\<lambda>x. username x = rtg) (users d) = r # rest"
  shows "fst (start admins d True tg firstName newId (Some (''ref_'' @ rtg)))
           = fst (registerReferral (fst (getOrCreateUser admins d tg firstName newId))
                    (u_id r) newId)"
  using assms
  by (simp add: start_def getOrCreateUser_def Let_def startsWith_def)

text \<open>
  Claim C9, as the source has it. No sequence of operations gives a referred account a
  second referral row. When a row for the referred account exists, the registration
  writes nothing and reports nothing to its caller. Otherwise it appends one row, with
  an award of 1, and raises the referrer's cached balance by exactly 1, by a direct
  update: every other balance and the transaction log stay as they were. \<^verbatim>\<open>/start\<close>
  with the parameter \<^verbatim>\<open>ref_\<close> followed by the id of an existing other account does
  this for a requester that had no account.
\<close>

theorem referral_registration:
  "(distinct (map referredId (referrals d)) \<longrightarrow>
      distinct (map referredId (referrals (run admins d ops))))
   \<and> (list_ex (\<lambda>r. referredId r = b) (referrals d) \<longrightarrow> registerReferral d a b = (d, False))
   \<and> (\<not> list_ex (\<lambda>r. referredId r = b) (referrals d) \<longrightarrow>
         snd (registerReferral d a b)
       \<and> referrals (fst (registerReferral d a b))
           = referrals d @ [\<lparr>referrerId = a, referredId = b, creditsAwarded = 1\<rparr>]
       \<and> (\<forall>c. balance d a = Some c \<longrightarrow>
             balance (fst (registerReferral d a b)) a = Some (c + 1))
       \<and> (\<forall>k. k \<noteq> a \<longrightarrow> balance (fst (registerReferral d a b)) k = balance d k)
       \<and> creditTransactions (fst (registerReferral d a b)) = creditTransactions d)
   \<and> (\<forall>r rest. filter (\<lambda>x. username x = tg) (users d) = [] \<and> rtg \<noteq> tg
         \<and> filter (\<lambda>x. username x = rtg) (users d) = r # rest \<longrightarrow>
         fst (start admins d True tg firstName newId (Some (''ref_'' @ rtg)))
           = fst (registerReferral (fst (getOrCreateUser admins d tg firstName newId))
                    (u_id r) newId))"
  using run_distinct registerReferral_violation registerReferral_success start_referral
  by blast

text \<open>Bob joins through Alice's link, and tries again.\<close>

theorem referral_registration_witness:
  "distinct (map referredId (referrals aliceDb))
   \<and> filter (\<lambda>x. username x = ''2002'') (users aliceDb) = []
   \<and> filter (\<lambda>x. username x = ''1001'') (users aliceDb) = [alice]
   \<and> referrals (run [] aliceDb
        [Start True ''2002'' ''Bob'' ''u2'' (Some ''ref_1001''),
         Start True ''2002'' ''Bob'' ''u3'' (Some ''ref_1001'')])
       = [\<lparr>referrerId = ''u1'', referredId = ''u2'', creditsAwarded = 1\<rparr>]
   \<and> distinct (map referredId (referrals (run [] aliceDb
        [Start True ''2002'' ''Bob'' ''u2'' (Some ''ref_1001''),
         Start True ''2002'' ''Bob'' ''u3'' (Some ''ref_1001'')])))
   \<and> balance (fst (start [] aliceDb True ''2002'' ''Bob'' ''u2'' (Some ''ref_1001''))) ''u1''
       = Some 3
   \<and> list_ex (\<lambda>r. referredId r = ''u2'')
        (referrals (fst (start [] aliceDb True ''2002'' ''Bob'' ''u2'' (Some ''ref_1001''))))
   \<and> registerReferral (fst (start [] aliceDb True ''2002'' ''Bob'' ''u2'' (Some ''ref_1001'')))
        ''u1'' ''u2''
       = (fst (start [] aliceDb True ''2002'' ''Bob'' ''u2'' (Some ''ref_1001'')), False)"
proof -
  let ?ops = "[Start True ''2002'' ''Bob'' ''u2'' (Some ''ref_1001''),
               Start True ''2002'' ''Bob'' ''u3'' (Some ''ref_1001'')]"
  let ?d1 = "fst (start [] aliceDb True ''2002'' ''Bob'' ''u2'' (Some ''ref_1001''))"
  have h1: "distinct (map referredId (referrals aliceDb))"
    by (simp add: aliceDb_def emptyDb_def)
  have h2: "filter (\<lambda>x. username x = ''2002'') (users aliceDb) = []"
    by (simp add: aliceDb_def alice_def)
  have h3: "filter (\<lambda>x. username x = ''1001'') (users aliceDb) = alice # []"
    by (simp add: aliceDb_def alice_def)
  have h4: "''1001'' \<noteq> ''2002''" by simp
  note t = referral_registration [of aliceDb "[]" ?ops]
  have e1: "referrals (run [] aliceDb ?ops)
              = [\<lparr>referrerId = ''u1'', referredId = ''u2'', creditsAwarded = 1\<rparr>]"
    by (simp add: start_def getOrCreateUser_def registerReferral_def aliceDb_def alice_def
        emptyDb_def startsWith_def Let_def)
  have e2: "distinct (map referredId (referrals (run [] aliceDb ?ops)))"
    using t [THEN conjunct1] h1 by simp
  have g: "fst (getOrCreateUser [] aliceDb ''2002'' ''Bob'' ''u2'')
             = aliceDb\<lparr>users := [alice,
                 \<lparr>u_id = ''u2'', username = ''2002'', displayName = ''Bob'', role = ''user'',
                  u_status = ''active'', credits = 0, lastCreditReset = None,
                  isPremium = False, premiumExpiresAt = None\<rparr>]\<rparr>"
    by (simp add: getOrCreateUser_def aliceDb_def alice_def Let_def)
  have s: "?d1 = fst (registerReferral (fst (getOrCreateUser [] aliceDb ''2002'' ''Bob'' ''u2''))
                        (u_id alice) ''u2'')"
    using referral_registration [of aliceDb "[]" "[]" "''u2''" "''u1''" "''2002''" "''1001''"
        "''Bob''" "''u2''", THEN conjunct2, THEN conjunct2, THEN conjunct2, rule_format,
        of alice "[]"] h2 h3 h4
    by simp
  have nr: "\<not> list_ex (\<lambda>r. referredId r = ''u2'')
               (referrals (fst (getOrCreateUser [] aliceDb ''2002'' ''Bob'' ''u2'')))"
    by (simp add: g) (simp add: aliceDb_def emptyDb_def)
  have bb: "balance (fst (getOrCreateUser [] aliceDb ''2002'' ''Bob'' ''u2'')) ''u1'' = Some 2"
    by (simp add: g) (simp add: balance_def aliceDb_def alice_def)
  note ok = referral_registration [of "fst (getOrCreateUser [] aliceDb ''2002'' ''Bob'' ''u2'')"
      "[]" "[]" "''u2''" "''u1''", THEN conjunct2, THEN conjunct2, THEN conjunct1, rule_format,
      OF nr]
  have i: "u_id alice = ''u1''" by (simp add: alice_def)
  have e3: "balance ?d1 ''u1'' = Some 3"
    using ok bb by (simp add: s i)
  have e4: "list_ex (\<lambda>r. referredId r = ''u2'') (referrals ?d1)"
    using ok by (simp add: s i)
  have e5: "registerReferral ?d1 ''u1'' ''u2'' = (?d1, False)"
    using referral_registration [of ?d1 "[]" "[]" "''u2''" "''u1''", THEN conjunct2,
        THEN conjunct1] e4 by simp
  show ?thesis using h1 h2 h3 e1 e2 e3 e4 e5 by simp
qed

text \<open>The claim as worded routes the award through the ledger: after a successful
  referral the balance is up by 1 and the transaction log is empty.\<close>

theorem referral_ledger_counterexample:
  "balance aliceDb ''u1'' = Some 2
   \<and> referrals (fst (start [] aliceDb True ''2002'' ''Bob'' ''u2'' (Some ''ref_1001'')))
       = [\<lparr>referrerId = ''u1'', referredId = ''u2'', creditsAwarded = 1\<rparr>]
   \<and> balance (fst (start [] aliceDb True ''2002'' ''Bob'' ''u2'' (Some ''ref_1001''))) ''u1''
       = Some 3
   \<and> creditTransactions (fst (start [] aliceDb True ''2002'' ''Bob'' ''u2''
                                 (Some ''ref_1001''))) = []"
  by (simp add: start_def getOrCreateUser_def registerReferral_def balance_def aliceDb_def
      alice_def emptyDb_def startsWith_def Let_def)

end
